theory Spec2Isabelle
  imports Main
begin

section \<open>JSON values as Python holds them\<close>

text \<open>
  The server of \<^verbatim>\<open>kata-07-atlassian-mcp/mcp_server.py\<close> and the client of
  \<^verbatim>\<open>solution.py\<close> compute on the values that \<^verbatim>\<open>json.loads\<close> and
  \<^verbatim>\<open>response.json()\<close> return: \<^verbatim>\<open>None\<close>, booleans, unbounded integers, floats,
  strings, lists and dictionaries with string keys. A dictionary is an association list
  in insertion order. A float is a mantissa and a binary exponent, or one of the three
  special values that \<^verbatim>\<open>json.loads\<close> accepts.
\<close>

datatype pyfloat = Finite int int | Infinity bool | NaN

datatype json =
    JNull
  | JBool bool
  | JInt int
  | JFloat pyfloat
  | JString string
  | JArray "json list"
  | JObject "(string \<times> json) list"

text \<open>
  The exception classes that the code raises, catches or lets through. The two
  \<^verbatim>\<open>except\<close> clauses that name a class are \<^verbatim>\<open>except json.JSONDecodeError\<close> in
  \<^verbatim>\<open>do_POST\<close> and \<^verbatim>\<open>except requests.exceptions.RequestException\<close> in the
  client; \<^verbatim>\<open>requests.exceptions.JSONDecodeError\<close> inherits from both.
\<close>

datatype exn =
    AttributeError
  | KeyError
  | TypeError
  | ValueError
  | UnicodeDecodeError
  | UnicodeEncodeError
  | JSONDecodeError
  | ConnectionError
  | Timeout
  | HTTPError
  | InvalidJSONError
  | RequestsJSONDecodeError
  | OtherRequestException

fun is_JSONDecodeError :: "exn \<Rightarrow> bool" where
  "is_JSONDecodeError JSONDecodeError = True"
| "is_JSONDecodeError RequestsJSONDecodeError = True"
| "is_JSONDecodeError _ = False"

fun is_RequestException :: "exn \<Rightarrow> bool" where
  "is_RequestException ConnectionError = True"
| "is_RequestException Timeout = True"
| "is_RequestException HTTPError = True"
| "is_RequestException InvalidJSONError = True"
| "is_RequestException RequestsJSONDecodeError = True"
| "is_RequestException OtherRequestException = True"
| "is_RequestException _ = False"

type_synonym 'a res = "exn + 'a"

definition bind_res :: "'a res \<Rightarrow> ('a \<Rightarrow> 'b res) \<Rightarrow> 'b res" where
  "bind_res r f = (case r of Inl e \<Rightarrow> Inl e | Inr v \<Rightarrow> f v)"

fun mapM_res :: "('a \<Rightarrow> 'b res) \<Rightarrow> 'a list \<Rightarrow> 'b list res" where
  "mapM_res f [] = Inr []"
| "mapM_res f (x # xs) =
     bind_res (f x) (\<lambda>y. bind_res (mapM_res f xs) (\<lambda>ys. Inr (y # ys)))"

subsection \<open>Python's operations on these values\<close>

text \<open>\<^verbatim>\<open>bool(v)\<close>, as \<^verbatim>\<open>if not v\<close> and \<^verbatim>\<open>v or d\<close> read it.\<close>

fun truthy :: "json \<Rightarrow> bool" where
  "truthy JNull = False"
| "truthy (JBool b) = b"
| "truthy (JInt i) = (i \<noteq> 0)"
| "truthy (JFloat (Finite m e)) = (m \<noteq> 0)"
| "truthy (JFloat _) = True"
| "truthy (JString s) = (s \<noteq> [])"
| "truthy (JArray xs) = (xs \<noteq> [])"
| "truthy (JObject kvs) = (kvs \<noteq> [])"

fun isinstance_dict :: "json \<Rightarrow> bool" where
  "isinstance_dict (JObject kvs) = True"
| "isinstance_dict _ = False"

fun isinstance_list :: "json \<Rightarrow> bool" where
  "isinstance_list (JArray xs) = True"
| "isinstance_list _ = False"

text \<open>\<^verbatim>\<open>v.get(k, d)\<close>: only a dictionary has the method.\<close>

fun py_get :: "json \<Rightarrow> string \<Rightarrow> json \<Rightarrow> json res" where
  "py_get (JObject kvs) k d = Inr (case map_of kvs k of Some v \<Rightarrow> v | None \<Rightarrow> d)"
| "py_get _ k d = Inl AttributeError"

text \<open>\<^verbatim>\<open>v[k]\<close> with a string key.\<close>

fun py_index :: "json \<Rightarrow> string \<Rightarrow> json res" where
  "py_index (JObject kvs) k = (case map_of kvs k of Some v \<Rightarrow> Inr v | None \<Rightarrow> Inl KeyError)"
| "py_index _ k = Inl TypeError"

fun starts_with :: "string \<Rightarrow> string \<Rightarrow> bool" where
  "starts_with [] s = True"
| "starts_with (c # k) [] = False"
| "starts_with (c # k) (d # s) = (c = d \<and> starts_with k s)"

fun substring :: "string \<Rightarrow> string \<Rightarrow> bool" where
  "substring k [] = (k = [])"
| "substring k (c # s) = (starts_with k (c # s) \<or> substring k s)"

text \<open>
  \<^verbatim>\<open>k in v\<close> for a string \<^verbatim>\<open>k\<close>: key membership in a dictionary, element
  membership in a list, substring test in a string, \<^verbatim>\<open>TypeError\<close> elsewhere.
\<close>

fun py_in :: "string \<Rightarrow> json \<Rightarrow> bool res" where
  "py_in k (JObject kvs) = Inr (k \<in> set (map fst kvs))"
| "py_in k (JArray xs) = Inr (JString k \<in> set xs)"
| "py_in k (JString s) = Inr (substring k s)"
| "py_in k _ = Inl TypeError"

text \<open>
  The items a \<^verbatim>\<open>for\<close> loop visits: the elements of a list, the keys of a
  dictionary, the characters of a string.
\<close>

fun py_iter :: "json \<Rightarrow> json list res" where
  "py_iter (JArray xs) = Inr xs"
| "py_iter (JObject kvs) = Inr (map (\<lambda>kv. JString (fst kv)) kvs)"
| "py_iter (JString s) = Inr (map (\<lambda>c. JString [c]) s)"
| "py_iter _ = Inl TypeError"

text \<open>\<^verbatim>\<open>v.split("/")[-1]\<close>: only a string has the method.\<close>

fun py_split_last :: "json \<Rightarrow> json res" where
  "py_split_last (JString s) = Inr (JString (rev (takeWhile (\<lambda>c. c \<noteq> CHR ''/'') (rev s))))"
| "py_split_last _ = Inl AttributeError"

text \<open>Whether a value can be a dictionary key (\<^verbatim>\<open>hash(v)\<close> does not raise).\<close>

fun hashable :: "json \<Rightarrow> bool" where
  "hashable (JArray xs) = False"
| "hashable (JObject kvs) = False"
| "hashable _ = True"

fun digit_char :: "nat \<Rightarrow> char" where
  "digit_char n = ''0123456789'' ! (n mod 10)"

fun show_nat :: "nat \<Rightarrow> string" where
  "show_nat n = (if n < 10 then [digit_char n] else show_nat (n div 10) @ [digit_char (n mod 10)])"

definition show_int :: "int \<Rightarrow> string" where
  "show_int i = (if i < 0 then CHR ''-'' # show_nat (nat (- i)) else show_nat (nat i))"

declare show_nat.simps [simp del]

section \<open>The environment of the server\<close>

text \<open>
  One upstream call, as \<^verbatim>\<open>requests.request(method=, url=, headers=, auth=, json=)\<close>
  receives it, and the three members of the response object that the connectors read:
  \<^verbatim>\<open>status_code\<close>, \<^verbatim>\<open>text\<close> and the outcome of \<^verbatim>\<open>json()\<close>.
\<close>

record http_req =
  req_method :: string
  req_url :: string
  req_headers :: "(string \<times> string) list"
  req_auth :: "string option \<times> string option"
  req_json :: "json option"

record response =
  resp_status_code :: int
  resp_text :: string
  resp_json :: "json res"

text \<open>
  Everything the code takes from outside the repository: the configuration read from the
  process environment at import, the upstream service behind \<^verbatim>\<open>requests.request\<close>,
  the server as the client reaches it through \<^verbatim>\<open>requests.post(url, json=, timeout=)\<close>,
  and the library functions \<^verbatim>\<open>urllib.parse.quote\<close>, \<^verbatim>\<open>urlparse(..).path\<close>,
  \<^verbatim>\<open>json.loads\<close>, \<^verbatim>\<open>int\<close> on a header value, \<^verbatim>\<open>str\<close> of an exception,
  \<^verbatim>\<open>str\<close> of a float, list or dictionary, and the two strings that
  \<^verbatim>\<open>send_response\<close> puts into the \<^verbatim>\<open>Server\<close> and \<^verbatim>\<open>Date\<close> headers. An
  environment is the world at the time of one request: the upstream service and the
  clock may differ from one request to the next. The theorems hold for every
  environment.
\<close>

record world =
  ATLASSIAN_URL :: string
  ATLASSIAN_EMAIL :: "string option"
  ATLASSIAN_API_TOKEN :: "string option"
  requests_request :: "http_req \<Rightarrow> response res"
  requests_post :: "string \<Rightarrow> json \<Rightarrow> int \<Rightarrow> response res"
  quote :: "string \<Rightarrow> string res"
  urlparse_path :: "string \<Rightarrow> string res"
  json_loads :: "string \<Rightarrow> json res"
  py_int :: "string \<Rightarrow> int res"
  exn_str :: "exn \<Rightarrow> string"
  repr_other :: "json \<Rightarrow> string"
  version_string :: string
  date_time_string :: string

text \<open>\<^verbatim>\<open>str(v)\<close>, which is also what an f-string field \<^verbatim>\<open>{v}\<close> inserts.\<close>

fun py_str :: "world \<Rightarrow> json \<Rightarrow> string" where
  "py_str w (JString s) = s"
| "py_str w JNull = ''None''"
| "py_str w (JBool b) = (if b then ''True'' else ''False'')"
| "py_str w (JInt i) = show_int i"
| "py_str w v = repr_other w v"

text \<open>
  \<^verbatim>\<open>quote(v)\<close>: a value that is neither \<^verbatim>\<open>str\<close> nor \<^verbatim>\<open>bytes\<close> raises
  \<^verbatim>\<open>TypeError\<close>; on a string the library function may itself raise
  (\<^verbatim>\<open>UnicodeEncodeError\<close> for a lone surrogate).
\<close>

fun py_quote :: "world \<Rightarrow> json \<Rightarrow> string res" where
  "py_quote w (JString s) = quote w s"
| "py_quote w _ = Inl TypeError"

text \<open>A connector's outcome together with the upstream calls it made, in order.\<close>

type_synonym 'a traced = "'a res \<times> http_req list"

definition get_auth :: "world \<Rightarrow> string option \<times> string option" where
  "get_auth w = (ATLASSIAN_EMAIL w, ATLASSIAN_API_TOKEN w)"

definition json_headers :: "(string \<times> string) list" where
  "json_headers = [(''Accept'', ''application/json''), (''Content-Type'', ''application/json'')]"

definition jira_request :: "world \<Rightarrow> string \<Rightarrow> string \<Rightarrow> json \<Rightarrow> response traced" where
  "jira_request w method endpoint data =
     (let rq = \<lparr>req_method = method,
                req_url = ATLASSIAN_URL w @ ''/rest/api/3'' @ endpoint,
                req_headers = json_headers,
                req_auth = get_auth w,
                req_json = (if truthy data then Some data else None)\<rparr>
      in (requests_request w rq, [rq]))"

definition confluence_request :: "world \<Rightarrow> string \<Rightarrow> string \<Rightarrow> json \<Rightarrow> response traced" where
  "confluence_request w method endpoint data =
     (let rq = \<lparr>req_method = method,
                req_url = ATLASSIAN_URL w @ ''/wiki/rest/api'' @ endpoint,
                req_headers = json_headers,
                req_auth = get_auth w,
                req_json = (if truthy data then Some data else None)\<rparr>
      in (requests_request w rq, [rq]))"

text \<open>The last line of every connector: \<^verbatim>\<open>{"error": response.text, "status_code": response.status_code}\<close>.\<close>

definition upstream_error :: "response \<Rightarrow> json" where
  "upstream_error response =
     JObject [(''error'', JString (resp_text response)),
              (''status_code'', JInt (resp_status_code response))]"

definition required_error :: "string \<Rightarrow> json" where
  "required_error msg = JObject [(''error'', JString msg)]"

section \<open>The upstream connectors\<close>

text \<open>
  \<^verbatim>\<open>v["a"]["b"]...\<close> and the chained form \<^verbatim>\<open>e.get(k, d)\<close> on an expression
  that may already have raised.
\<close>

fun py_path :: "json \<Rightarrow> string list \<Rightarrow> json res" where
  "py_path v [] = Inr v"
| "py_path v (k # ks) = bind_res (py_index v k) (\<lambda>u. py_path u ks)"

definition get_of :: "json res \<Rightarrow> string \<Rightarrow> json \<Rightarrow> json res" where
  "get_of r k d = bind_res r (\<lambda>v. py_get v k d)"

subsection \<open>\<^verbatim>\<open>tool_jira_get_projects\<close>\<close>

definition project_entry :: "json \<Rightarrow> json res" where
  "project_entry p =
     bind_res (py_index p ''key'') (\<lambda>k.
     bind_res (py_index p ''name'') (\<lambda>n.
     bind_res (py_index p ''id'') (\<lambda>i.
     Inr (JObject [(''key'', k), (''name'', n), (''id'', i)]))))"

definition projects_result :: "json \<Rightarrow> json res" where
  "projects_result projects =
     bind_res (py_iter projects) (\<lambda>ps.
     bind_res (mapM_res project_entry ps) (\<lambda>es.
     Inr (JObject [(''projects'', JArray es)])))"

definition tool_jira_get_projects :: "world \<Rightarrow> json \<Rightarrow> json traced" where
  "tool_jira_get_projects w params =
     (case jira_request w ''GET'' ''/project'' JNull of (r, calls) \<Rightarrow>
        (bind_res r (\<lambda>response.
           if resp_status_code response = 200
           then bind_res (resp_json response) projects_result
           else Inr (upstream_error response)), calls))"

subsection \<open>\<^verbatim>\<open>tool_jira_search_issues\<close>\<close>

text \<open>
  \<^verbatim>\<open>issue.get(k, {}).get("name", "Unknown") if isinstance(issue.get(k), dict)
  else str(issue.get(k, "Unknown"))\<close>
\<close>

definition name_or_str :: "world \<Rightarrow> json \<Rightarrow> string \<Rightarrow> json res" where
  "name_or_str w issue k =
     bind_res (py_get issue k JNull) (\<lambda>s.
       if isinstance_dict s
       then get_of (py_get issue k (JObject [])) ''name'' (JString ''Unknown'')
       else bind_res (py_get issue k (JString ''Unknown'')) (\<lambda>v. Inr (JString (py_str w v))))"

definition search_issue_entry :: "world \<Rightarrow> json \<Rightarrow> json res" where
  "search_issue_entry w issue =
     bind_res (py_in ''fields'' issue) (\<lambda>old_format.
       if old_format then
         bind_res (py_index issue ''key'') (\<lambda>key.
         bind_res (py_path issue [''fields'', ''summary'']) (\<lambda>summary.
         bind_res (py_path issue [''fields'', ''status'', ''name'']) (\<lambda>status.
         bind_res (py_path issue [''fields'', ''issuetype'', ''name'']) (\<lambda>type.
         bind_res (py_path issue [''fields'', ''created'']) (\<lambda>created.
         Inr (JObject [(''key'', key), (''summary'', summary), (''status'', status),
                       (''type'', type), (''created'', created)]))))))
       else
         bind_res (bind_res (py_get issue ''id'' (JString ''unknown''))
                            (\<lambda>d. py_get issue ''key'' d)) (\<lambda>key.
         bind_res (bind_res (py_get issue ''summaryText'' (JString ''No summary''))
                            (\<lambda>d. py_get issue ''summary'' d)) (\<lambda>summary.
         bind_res (name_or_str w issue ''status'') (\<lambda>status.
         bind_res (name_or_str w issue ''issuetype'') (\<lambda>type.
         bind_res (py_get issue ''created'' (JString ''Unknown'')) (\<lambda>created.
         Inr (JObject [(''key'', key), (''summary'', summary), (''status'', status),
                       (''type'', type), (''created'', created)])))))))"

definition search_result :: "world \<Rightarrow> json \<Rightarrow> json res" where
  "search_result w data =
     bind_res (if isinstance_list data then Inr data
               else py_get data ''issues'' (JArray [])) (\<lambda>issue_list.
     bind_res (py_iter issue_list) (\<lambda>items.
     bind_res (mapM_res (search_issue_entry w) items) (\<lambda>issues.
     bind_res (if isinstance_dict data
               then py_get data ''total'' (JInt (int (length issues)))
               else Inr (JInt (int (length issues)))) (\<lambda>total.
     Inr (JObject [(''total'', total), (''issues'', JArray issues)])))))"

definition tool_jira_search_issues :: "world \<Rightarrow> json \<Rightarrow> json traced" where
  "tool_jira_search_issues w params =
     (case py_get params ''jql'' (JString ''ORDER BY created DESC'') of
        Inl e \<Rightarrow> (Inl e, [])
      | Inr jql \<Rightarrow>
     (case py_get params ''max_results'' (JInt 10) of
        Inl e \<Rightarrow> (Inl e, [])
      | Inr max_results \<Rightarrow>
     (case py_quote w jql of
        Inl e \<Rightarrow> (Inl e, [])
      | Inr quoted \<Rightarrow>
     (case jira_request w ''GET''
             (''/search/jql?jql='' @ quoted @ ''&maxResults='' @ py_str w max_results
                @ ''&fields='' @ ''summary,status,issuetype,created'') JNull of
        (r, calls) \<Rightarrow>
          (bind_res r (\<lambda>response.
             if resp_status_code response = 200
             then bind_res (resp_json response) (search_result w)
             else Inr (upstream_error response)), calls)))))"

subsection \<open>\<^verbatim>\<open>tool_jira_get_issue\<close>\<close>

definition issue_result :: "json \<Rightarrow> json res" where
  "issue_result issue =
     bind_res (py_index issue ''key'') (\<lambda>key.
     bind_res (py_path issue [''fields'', ''summary'']) (\<lambda>summary.
     bind_res (get_of (py_index issue ''fields'') ''description'' JNull) (\<lambda>description.
     bind_res (py_path issue [''fields'', ''status'', ''name'']) (\<lambda>status.
     bind_res (py_path issue [''fields'', ''issuetype'', ''name'']) (\<lambda>type.
     bind_res (get_of (get_of (py_index issue ''fields'') ''priority'' (JObject []))
                      ''name'' JNull) (\<lambda>priority.
     bind_res (bind_res (get_of (py_index issue ''fields'') ''assignee'' JNull) (\<lambda>a.
                 if truthy a
                 then get_of (get_of (py_index issue ''fields'') ''assignee'' (JObject []))
                             ''displayName'' JNull
                 else Inr JNull)) (\<lambda>assignee.
     bind_res (py_path issue [''fields'', ''created'']) (\<lambda>created.
     bind_res (py_path issue [''fields'', ''updated'']) (\<lambda>updated.
     Inr (JObject [(''key'', key), (''summary'', summary), (''description'', description),
                   (''status'', status), (''type'', type), (''priority'', priority),
                   (''assignee'', assignee), (''created'', created),
                   (''updated'', updated)]))))))))))"

definition tool_jira_get_issue :: "world \<Rightarrow> json \<Rightarrow> json traced" where
  "tool_jira_get_issue w params =
     (case py_get params ''issue_key'' JNull of
        Inl e \<Rightarrow> (Inl e, [])
      | Inr issue_key \<Rightarrow>
          if \<not> truthy issue_key then (Inr (required_error ''issue_key is required''), [])
          else
            (case jira_request w ''GET'' (''/issue/'' @ py_str w issue_key) JNull of
               (r, calls) \<Rightarrow>
                 (bind_res r (\<lambda>response.
                    if resp_status_code response = 200
                    then bind_res (resp_json response) issue_result
                    else Inr (upstream_error response)), calls)))"

subsection \<open>\<^verbatim>\<open>tool_jira_create_issue\<close>\<close>

definition create_issue_data :: "json \<Rightarrow> json \<Rightarrow> json \<Rightarrow> json \<Rightarrow> json" where
  "create_issue_data project_key summary issue_type description =
     JObject [(''fields'', JObject
       [(''project'', JObject [(''key'', project_key)]),
        (''summary'', summary),
        (''issuetype'', JObject [(''name'', issue_type)]),
        (''description'', JObject
           [(''type'', JString ''doc''),
            (''version'', JInt 1),
            (''content'',
               if truthy description
               then JArray [JObject [(''type'', JString ''paragraph''),
                      (''content'', JArray [JObject [(''type'', JString ''text''),
                                                     (''text'', description)]])]]
               else JArray [])])])]"

definition created_result :: "json \<Rightarrow> json res" where
  "created_result result =
     bind_res (py_index result ''key'') (\<lambda>key.
     bind_res (py_index result ''id'') (\<lambda>i.
     bind_res (py_index result ''self'') (\<lambda>self.
     Inr (JObject [(''key'', key), (''id'', i), (''self'', self)]))))"

definition tool_jira_create_issue :: "world \<Rightarrow> json \<Rightarrow> json traced" where
  "tool_jira_create_issue w params =
     (case py_get params ''project_key'' JNull of
        Inl e \<Rightarrow> (Inl e, [])
      | Inr project_key \<Rightarrow>
     (case py_get params ''summary'' JNull of
        Inl e \<Rightarrow> (Inl e, [])
      | Inr summary \<Rightarrow>
     (case py_get params ''issue_type'' (JString ''Task'') of
        Inl e \<Rightarrow> (Inl e, [])
      | Inr issue_type \<Rightarrow>
     (case py_get params ''description'' (JString []) of
        Inl e \<Rightarrow> (Inl e, [])
      | Inr description \<Rightarrow>
          if \<not> truthy project_key \<or> \<not> truthy summary
          then (Inr (required_error ''project_key and summary are required''), [])
          else
            (case jira_request w ''POST'' ''/issue''
                    (create_issue_data project_key summary issue_type description) of
               (r, calls) \<Rightarrow>
                 (bind_res r (\<lambda>response.
                    if resp_status_code response = 200 \<or> resp_status_code response = 201
                    then bind_res (resp_json response) created_result
                    else Inr (upstream_error response)), calls))))))"

subsection \<open>\<^verbatim>\<open>tool_confluence_get_spaces\<close>\<close>

definition space_entry :: "json \<Rightarrow> json res" where
  "space_entry space =
     bind_res (py_index space ''key'') (\<lambda>key.
     bind_res (py_index space ''name'') (\<lambda>name.
     bind_res (py_index space ''type'') (\<lambda>type.
     bind_res (py_index space ''id'') (\<lambda>i.
     Inr (JObject [(''key'', key), (''name'', name), (''type'', type), (''id'', i)])))))"

definition spaces_result :: "json \<Rightarrow> json res" where
  "spaces_result data =
     bind_res (py_get data ''results'' (JArray [])) (\<lambda>results.
     bind_res (py_iter results) (\<lambda>items.
     bind_res (mapM_res space_entry items) (\<lambda>spaces.
     Inr (JObject [(''spaces'', JArray spaces)]))))"

definition tool_confluence_get_spaces :: "world \<Rightarrow> json \<Rightarrow> json traced" where
  "tool_confluence_get_spaces w params =
     (case confluence_request w ''GET'' ''/space'' JNull of (r, calls) \<Rightarrow>
        (bind_res r (\<lambda>response.
           if resp_status_code response = 200
           then bind_res (resp_json response) spaces_result
           else Inr (upstream_error response)), calls))"

subsection \<open>\<^verbatim>\<open>tool_confluence_search\<close>\<close>

definition page_entry :: "json \<Rightarrow> json res" where
  "page_entry page =
     bind_res (get_of (py_get page ''_expandable'' (JObject [])) ''space'' (JString []))
       (\<lambda>expandable_space.
     bind_res (if truthy expandable_space
               then bind_res (py_in ''/'' expandable_space) (\<lambda>has_slash.
                      if has_slash then py_split_last expandable_space else Inr JNull)
               else Inr JNull) (\<lambda>space_key.
     bind_res (py_index page ''id'') (\<lambda>i.
     bind_res (py_index page ''title'') (\<lambda>title.
     bind_res (py_index page ''type'') (\<lambda>type.
     Inr (JObject [(''id'', i), (''title'', title), (''type'', type),
                   (''space'', space_key)]))))))"

definition pages_result :: "json \<Rightarrow> json res" where
  "pages_result data =
     bind_res (py_get data ''results'' (JArray [])) (\<lambda>results.
     bind_res (py_iter results) (\<lambda>items.
     bind_res (mapM_res page_entry items) (\<lambda>pages.
     bind_res (py_get data ''size'' (JInt (int (length pages)))) (\<lambda>total.
     Inr (JObject [(''total'', total), (''pages'', JArray pages)])))))"

definition tool_confluence_search :: "world \<Rightarrow> json \<Rightarrow> json traced" where
  "tool_confluence_search w params =
     (case py_get params ''query'' JNull of
        Inl e \<Rightarrow> (Inl e, [])
      | Inr query \<Rightarrow>
     (case py_get params ''max_results'' (JInt 10) of
        Inl e \<Rightarrow> (Inl e, [])
      | Inr max_results \<Rightarrow>
          if \<not> truthy query then (Inr (required_error ''query is required''), [])
          else
            (case quote w (''type=page AND title~\"'' @ py_str w query @ ''\"'') of
               Inl e \<Rightarrow> (Inl e, [])
             | Inr quoted \<Rightarrow>
            (case confluence_request w ''GET''
                    (''/content/search?cql='' @ quoted @ ''&limit='' @ py_str w max_results)
                    JNull of
               (r, calls) \<Rightarrow>
                 (bind_res r (\<lambda>response.
                    if resp_status_code response = 200
                    then bind_res (resp_json response) pages_result
                    else Inr (upstream_error response)), calls)))))"

subsection \<open>\<^verbatim>\<open>tool_confluence_get_page\<close>\<close>

definition page_result :: "json \<Rightarrow> json res" where
  "page_result page =
     bind_res (py_index page ''id'') (\<lambda>i.
     bind_res (py_index page ''title'') (\<lambda>title.
     bind_res (get_of (py_get page ''space'' (JObject [])) ''key'' JNull) (\<lambda>space.
     bind_res (get_of (py_get page ''version'' (JObject [])) ''number'' JNull) (\<lambda>version.
     bind_res (get_of (get_of (py_get page ''body'' (JObject [])) ''storage'' (JObject []))
                      ''value'' (JString [])) (\<lambda>body.
     Inr (JObject [(''id'', i), (''title'', title), (''space'', space),
                   (''version'', version), (''body'', body)]))))))"

definition tool_confluence_get_page :: "world \<Rightarrow> json \<Rightarrow> json traced" where
  "tool_confluence_get_page w params =
     (case py_get params ''page_id'' JNull of
        Inl e \<Rightarrow> (Inl e, [])
      | Inr page_id \<Rightarrow>
          if \<not> truthy page_id then (Inr (required_error ''page_id is required''), [])
          else
            (case confluence_request w ''GET''
                    (''/content/'' @ py_str w page_id @ ''?expand=body.storage,space,version'')
                    JNull of
               (r, calls) \<Rightarrow>
                 (bind_res r (\<lambda>response.
                    if resp_status_code response = 200
                    then bind_res (resp_json response) page_result
                    else Inr (upstream_error response)), calls)))"

section \<open>The tool registry and the dispatch table\<close>

definition parameter_spec :: "string \<Rightarrow> string \<Rightarrow> string \<Rightarrow> bool \<Rightarrow> json" where
  "parameter_spec name type description required =
     JObject [(''name'', JString name), (''type'', JString type),
              (''description'', JString description), (''required'', JBool required)]"

definition tool_descriptor :: "string \<Rightarrow> string \<Rightarrow> json list \<Rightarrow> json" where
  "tool_descriptor name description parameters =
     JObject [(''name'', JString name), (''description'', JString description),
              (''parameters'', JArray parameters)]"

definition TOOLS :: "json list" where
  "TOOLS =
    [tool_descriptor ''jira_get_projects''
       ''List all Jira projects accessible to the user'' [],
     tool_descriptor ''jira_search_issues''
       ''Search Jira issues using JQL (Jira Query Language)''
       [parameter_spec ''jql'' ''string'' ''JQL query string'' False,
        parameter_spec ''max_results'' ''integer'' ''Maximum results (default 10)'' False],
     tool_descriptor ''jira_get_issue''
       ''Get details of a specific Jira issue by key''
       [parameter_spec ''issue_key'' ''string'' ''Issue key (e.g., PROJ-123)'' True],
     tool_descriptor ''jira_create_issue''
       ''Create a new Jira issue''
       [parameter_spec ''project_key'' ''string'' ''Project key (e.g., PROJ)'' True,
        parameter_spec ''summary'' ''string'' ''Issue summary/title'' True,
        parameter_spec ''issue_type'' ''string'' ''Issue type (Task, Bug, Story)'' False,
        parameter_spec ''description'' ''string'' ''Issue description'' False],
     tool_descriptor ''confluence_get_spaces''
       ''List all Confluence spaces accessible to the user'' [],
     tool_descriptor ''confluence_search''
       ''Search Confluence pages by text''
       [parameter_spec ''query'' ''string'' ''Search query text'' True,
        parameter_spec ''max_results'' ''integer'' ''Maximum results (default 10)'' False],
     tool_descriptor ''confluence_get_page''
       ''Get content of a specific Confluence page''
       [parameter_spec ''page_id'' ''string'' ''Page ID'' True]]"

type_synonym handler = "world \<Rightarrow> json \<Rightarrow> json traced"

definition TOOL_HANDLERS :: "(string \<times> handler) list" where
  "TOOL_HANDLERS =
    [(''jira_get_projects'', tool_jira_get_projects),
     (''jira_search_issues'', tool_jira_search_issues),
     (''jira_get_issue'', tool_jira_get_issue),
     (''jira_create_issue'', tool_jira_create_issue),
     (''confluence_get_spaces'', tool_confluence_get_spaces),
     (''confluence_search'', tool_confluence_search),
     (''confluence_get_page'', tool_confluence_get_page)]"

text \<open>The names the discovery route publishes, in listing order, and the keys of the table.\<close>

fun descriptor_name :: "json \<Rightarrow> string option" where
  "descriptor_name (JObject kvs) =
     (case map_of kvs ''name'' of Some (JString s) \<Rightarrow> Some s | _ \<Rightarrow> None)"
| "descriptor_name _ = None"

definition tool_names :: "string option list" where
  "tool_names = map descriptor_name TOOLS"

definition handler_keys :: "string list" where
  "handler_keys = map fst TOOL_HANDLERS"

text \<open>
  \<^verbatim>\<open>TOOL_HANDLERS.get(tool_name)\<close>: a list or a dictionary as the key raises
  \<^verbatim>\<open>TypeError\<close> (unhashable); any other value that is not one of the seven strings
  gives \<^verbatim>\<open>None\<close>.
\<close>

definition handlers_get :: "json \<Rightarrow> handler option res" where
  "handlers_get tool_name =
     (if \<not> hashable tool_name then Inl TypeError
      else Inr (case tool_name of JString s \<Rightarrow> map_of TOOL_HANDLERS s | _ \<Rightarrow> None))"

section \<open>The HTTP protocol server\<close>

text \<open>
  What a handler method reads of the request: \<^verbatim>\<open>self.path\<close>, the
  \<^verbatim>\<open>Content-Length\<close> header if present, and the bytes that follow the headers on
  \<^verbatim>\<open>self.rfile\<close>. The response is the status and headers of \<^verbatim>\<open>_send_json\<close>
  (\<^verbatim>\<open>send_response\<close> writes the \<^verbatim>\<open>Server\<close> and \<^verbatim>\<open>Date\<close> headers first)
  and the value that it serialises with \<^verbatim>\<open>json.dumps\<close>.
\<close>

record request =
  req_path :: string
  content_length :: "string option"
  rfile :: string

record http_response =
  status :: int
  headers :: "(string \<times> string) list"
  body :: json

text \<open>
  The observable steps of one invocation, in order: the lookup in the dispatch table,
  the call of the handler, and each upstream call the handler makes.
\<close>

datatype event = Lookup json | Invoke json json | Upstream http_req

definition send_json :: "world \<Rightarrow> json \<Rightarrow> int \<Rightarrow> http_response" where
  "send_json w data st =
     \<lparr>status = st,
      headers = [(''Server'', version_string w),
                 (''Date'', date_time_string w),
                 (''Content-Type'', ''application/json''),
                 (''Access-Control-Allow-Origin'', ''*'')],
      body = data\<rparr>"

text \<open>
  The state of the server process that the routes read: the module-level list
  \<^verbatim>\<open>TOOLS\<close>, which \<^verbatim>\<open>do_GET\<close> reads anew at every call. At startup it is the
  list of the definition.
\<close>

record process_state =
  registry :: "json list"

definition startup :: process_state where
  "startup = \<lparr>registry = TOOLS\<rparr>"

definition do_GET :: "world \<Rightarrow> process_state \<Rightarrow> request \<Rightarrow> http_response res" where
  "do_GET w st r =
     bind_res (urlparse_path w (req_path r)) (\<lambda>path.
       if path = ''/health''
       then Inr (send_json w (JObject [(''status'', JString ''healthy''),
                                       (''service'', JString ''atlassian-mcp'')]) 200)
       else if path = ''/mcp/v1/tools''
       then Inr (send_json w (JObject [(''tools'', JArray (registry st))]) 200)
       else Inr (send_json w (JObject [(''error'', JString ''Not found'')]) 404))"

text \<open>\<^verbatim>\<open>int(self.headers.get("Content-Length", 0))\<close> and \<^verbatim>\<open>self.rfile.read(n)\<close>.\<close>

definition content_length_value :: "world \<Rightarrow> request \<Rightarrow> int res" where
  "content_length_value w r =
     (case content_length r of None \<Rightarrow> Inr 0 | Some h \<Rightarrow> py_int w h)"

definition rfile_read :: "string \<Rightarrow> int \<Rightarrow> string" where
  "rfile_read s n = (if n < 0 then s else take (nat n) s)"

text \<open>
  The branch of \<^verbatim>\<open>do_POST\<close> for the path \<^verbatim>\<open>/mcp/v1/invoke\<close>. An exception
  raised outside the \<^verbatim>\<open>try\<close> around the handler call leaves \<^verbatim>\<open>do_POST\<close>: no
  response is written (\<open>Inl\<close>).
\<close>

definition do_POST_invoke :: "world \<Rightarrow> json \<Rightarrow> http_response res \<times> event list" where
  "do_POST_invoke w data =
     (case py_get data ''name'' JNull of
        Inl e \<Rightarrow> (Inl e, [])
      | Inr tool_name \<Rightarrow>
     (case py_get data ''parameters'' (JObject []) of
        Inl e \<Rightarrow> (Inl e, [])
      | Inr parameters \<Rightarrow>
          if \<not> truthy tool_name
          then (Inr (send_json w (JObject [(''error'', JString ''Tool name is required'')]) 400), [])
          else
            (case handlers_get tool_name of
               Inl e \<Rightarrow> (Inl e, [Lookup tool_name])
             | Inr None \<Rightarrow>
                 (Inr (send_json w (JObject [(''error'',
                         JString (''Unknown tool: '' @ py_str w tool_name))]) 404),
                  [Lookup tool_name])
             | Inr (Some handler) \<Rightarrow>
                 (case handler w parameters of
                    (Inr result, calls) \<Rightarrow>
                      (Inr (send_json w (JObject [(''result'', result), (''error'', JNull)]) 200),
                       Lookup tool_name # Invoke tool_name parameters # map Upstream calls)
                  | (Inl e, calls) \<Rightarrow>
                      (Inr (send_json w (JObject [(''result'', JNull),
                              (''error'', JString (exn_str w e))]) 500),
                       Lookup tool_name # Invoke tool_name parameters # map Upstream calls)))))"

definition do_POST :: "world \<Rightarrow> request \<Rightarrow> http_response res \<times> event list" where
  "do_POST w r =
     (case urlparse_path w (req_path r) of
        Inl e \<Rightarrow> (Inl e, [])
      | Inr path \<Rightarrow>
     (case content_length_value w r of
        Inl e \<Rightarrow> (Inl e, [])
      | Inr n \<Rightarrow>
     (case (if rfile_read (rfile r) n \<noteq> [] then json_loads w (rfile_read (rfile r) n)
            else Inr (JObject [])) of
        Inl e \<Rightarrow>
          if is_JSONDecodeError e
          then (Inr (send_json w (JObject [(''error'', JString ''Invalid JSON'')]) 400), [])
          else (Inl e, [])
      | Inr data \<Rightarrow>
          if path = ''/mcp/v1/invoke'' then do_POST_invoke w data
          else (Inr (send_json w (JObject [(''error'', JString ''Not found'')]) 404), []))))"

text \<open>
  The server handles one request at a time, each in the environment of its moment.
  Neither route assigns to \<^verbatim>\<open>TOOLS\<close>, and no connector names it, so each request
  hands the process state on as it found it.
\<close>

datatype http_call = GET request | POST request

fun handle_one_request ::
  "world \<Rightarrow> process_state \<Rightarrow> http_call \<Rightarrow> http_response res \<times> process_state" where
  "handle_one_request w st (GET r) = (do_GET w st r, st)"
| "handle_one_request w st (POST r) = (fst (do_POST w r), st)"

fun serve ::
  "process_state \<Rightarrow> (world \<times> http_call) list \<Rightarrow> http_response res list \<times> process_state" where
  "serve st [] = ([], st)"
| "serve st ((w, c) # cs) =
     (case handle_one_request w st c of
        (out, st') \<Rightarrow> (case serve st' cs of (outs, st'') \<Rightarrow> (out # outs, st'')))"

section \<open>The protocol client\<close>

record MCPClient =
  server_url :: string

definition rstrip_slash :: "string \<Rightarrow> string" where
  "rstrip_slash s = rev (dropWhile (\<lambda>c. c = CHR ''/'') (rev s))"

definition MCPClient_init :: "string \<Rightarrow> MCPClient" where
  "MCPClient_init url = \<lparr>server_url = rstrip_slash url\<rparr>"

text \<open>\<^verbatim>\<open>response.raise_for_status()\<close> raises \<^verbatim>\<open>HTTPError\<close> for a 4xx or 5xx status.\<close>

definition raise_for_status :: "response \<Rightarrow> unit res" where
  "raise_for_status response =
     (if 400 \<le> resp_status_code response \<and> resp_status_code response < 600
      then Inl HTTPError else Inr ())"

definition invoke_payload :: "string \<Rightarrow> json \<Rightarrow> json" where
  "invoke_payload tool_name parameters =
     JObject [(''name'', JString tool_name),
              (''parameters'', if truthy parameters then parameters else JObject [])]"

text \<open>
  \<^verbatim>\<open>MCPClient.invoke\<close>; the default \<^verbatim>\<open>parameters=None\<close> is \<open>JNull\<close>. An
  exception that is not a \<^verbatim>\<open>RequestException\<close> passes through the \<^verbatim>\<open>except\<close>
  clause.
\<close>

definition invoke :: "world \<Rightarrow> MCPClient \<Rightarrow> string \<Rightarrow> json \<Rightarrow> json res" where
  "invoke w self tool_name parameters =
     (case bind_res (requests_post w (server_url self @ ''/mcp/v1/invoke'')
                       (invoke_payload tool_name parameters) 30) (\<lambda>response.
           bind_res (raise_for_status response) (\<lambda>u. resp_json response)) of
        Inr v \<Rightarrow> Inr v
      | Inl e \<Rightarrow>
          if is_RequestException e
          then Inr (JObject [(''error'', JString (exn_str w e)), (''result'', JNull)])
          else Inl e)"

section \<open>Notions used to state the properties\<close>

text \<open>
  The request \<open>r\<close> carries the JSON value \<open>data\<close> to the path
  \<^verbatim>\<open>/mcp/v1/invoke\<close>: its body is \<open>data\<close> as \<^verbatim>\<open>json.loads\<close> decodes it, or
  it is empty and \<open>data\<close> is the empty object.
\<close>

definition invoke_request :: "world \<Rightarrow> request \<Rightarrow> json \<Rightarrow> bool" where
  "invoke_request w r data =
     (urlparse_path w (req_path r) = Inr ''/mcp/v1/invoke'' \<and>
      (case content_length_value w r of
         Inl e \<Rightarrow> False
       | Inr n \<Rightarrow>
           if rfile_read (rfile r) n = [] then data = JObject []
           else json_loads w (rfile_read (rfile r) n) = Inr data))"

text \<open>A parameter that is missing from the mapping, or present with a falsy value.\<close>

definition absent_or_empty :: "(string \<times> json) list \<Rightarrow> string \<Rightarrow> bool" where
  "absent_or_empty kvs k = (case map_of kvs k of None \<Rightarrow> True | Some v \<Rightarrow> \<not> truthy v)"

text \<open>The parameters that a descriptor of the registry declares as required.\<close>

fun required_name :: "json \<Rightarrow> string list" where
  "required_name (JObject kvs) =
     (case map_of kvs ''required'' of
        Some (JBool True) \<Rightarrow>
          (case map_of kvs ''name'' of Some (JString n) \<Rightarrow> [n] | _ \<Rightarrow> [])
      | _ \<Rightarrow> [])"
| "required_name _ = []"

fun required_parameters :: "json \<Rightarrow> string list" where
  "required_parameters (JObject kvs) =
     (case map_of kvs ''parameters'' of
        Some (JArray ps) \<Rightarrow> concat (map required_name ps)
      | _ \<Rightarrow> [])"
| "required_parameters _ = []"

fun object_keys :: "json \<Rightarrow> string list option" where
  "object_keys (JObject kvs) = Some (map fst kvs)"
| "object_keys _ = None"

text \<open>
  The invocation envelope: an object with exactly the keys \<^verbatim>\<open>result\<close> and
  \<^verbatim>\<open>error\<close>, in either order, read as the pair of their values.
\<close>

fun envelope_of :: "json \<Rightarrow> (json \<times> json) option" where
  "envelope_of (JObject [(k1, v1), (k2, v2)]) =
     (if k1 = ''result'' \<and> k2 = ''error'' then Some (v1, v2)
      else if k1 = ''error'' \<and> k2 = ''result'' then Some (v2, v1)
      else None)"
| "envelope_of _ = None"

text \<open>The status and the body of the response, if one was written.\<close>

definition status_and_body :: "http_response res \<Rightarrow> (int \<times> json) option" where
  "status_and_body out =
     (case out of Inr resp \<Rightarrow> Some (status resp, body resp) | Inl e \<Rightarrow> None)"

subsection \<open>The shape of upstream bodies and the domain fields read from them\<close>

text \<open>
  Reading a JSON document as a specification does, with total accessors: whether an
  object has a key, the value under it (\<open>JNull\<close> when there is none), the value or a
  default, the same along a path of keys, and the elements of an array.
\<close>

fun has_key :: "json \<Rightarrow> string \<Rightarrow> bool" where
  "has_key (JObject kvs) k = (k \<in> set (map fst kvs))"
| "has_key _ k = False"

fun value_at :: "json \<Rightarrow> string \<Rightarrow> json" where
  "value_at (JObject kvs) k = (case map_of kvs k of Some v \<Rightarrow> v | None \<Rightarrow> JNull)"
| "value_at _ k = JNull"

definition value_or :: "json \<Rightarrow> string \<Rightarrow> json \<Rightarrow> json" where
  "value_or v k d = (if has_key v k then value_at v k else d)"

fun has_path :: "json \<Rightarrow> string list \<Rightarrow> bool" where
  "has_path v [] = True"
| "has_path v (k # ks) = (has_key v k \<and> has_path (value_at v k) ks)"

fun at_path :: "json \<Rightarrow> string list \<Rightarrow> json" where
  "at_path v [] = v"
| "at_path v (k # ks) = at_path (value_at v k) ks"

fun items_of :: "json \<Rightarrow> json list" where
  "items_of (JArray xs) = xs"
| "items_of _ = []"

fun isinstance_str :: "json \<Rightarrow> bool" where
  "isinstance_str (JString s) = True"
| "isinstance_str _ = False"

text \<open>
  Project list: an array of objects with \<^verbatim>\<open>key\<close>, \<^verbatim>\<open>name\<close> and \<^verbatim>\<open>id\<close>.
\<close>

definition project_ok :: "json \<Rightarrow> bool" where
  "project_ok p = (has_key p ''key'' \<and> has_key p ''name'' \<and> has_key p ''id'')"

definition project_fields :: "json \<Rightarrow> json" where
  "project_fields p =
     JObject [(''key'', value_at p ''key''), (''name'', value_at p ''name''),
              (''id'', value_at p ''id'')]"

definition projects_body_ok :: "json \<Rightarrow> bool" where
  "projects_body_ok v = (isinstance_list v \<and> list_all project_ok (items_of v))"

definition projects_fields :: "json \<Rightarrow> json" where
  "projects_fields v = JObject [(''projects'', JArray (map project_fields (items_of v)))]"

text \<open>
  Issue search: an array of issues, or an object whose \<^verbatim>\<open>issues\<close>, if present, is
  such an array. An issue with a \<^verbatim>\<open>fields\<close> key is in the nested format and has
  \<^verbatim>\<open>key\<close>, \<^verbatim>\<open>fields.summary\<close>, \<^verbatim>\<open>fields.status.name\<close>,
  \<^verbatim>\<open>fields.issuetype.name\<close> and \<^verbatim>\<open>fields.created\<close>; any other object is in the
  flat format, where every field has a default.
\<close>

definition issue_entry_ok :: "json \<Rightarrow> bool" where
  "issue_entry_ok i =
     (if has_key i ''fields''
      then has_key i ''key'' \<and> has_path i [''fields'', ''summary'']
           \<and> has_path i [''fields'', ''status'', ''name'']
           \<and> has_path i [''fields'', ''issuetype'', ''name'']
           \<and> has_path i [''fields'', ''created'']
      else isinstance_dict i)"

definition name_or_text :: "world \<Rightarrow> json \<Rightarrow> string \<Rightarrow> json" where
  "name_or_text w i k =
     (if isinstance_dict (value_at i k)
      then value_or (value_at i k) ''name'' (JString ''Unknown'')
      else JString (py_str w (value_or i k (JString ''Unknown''))))"

definition issue_entry_fields :: "world \<Rightarrow> json \<Rightarrow> json" where
  "issue_entry_fields w i =
     (if has_key i ''fields''
      then JObject [(''key'', value_at i ''key''),
                    (''summary'', at_path i [''fields'', ''summary'']),
                    (''status'', at_path i [''fields'', ''status'', ''name'']),
                    (''type'', at_path i [''fields'', ''issuetype'', ''name'']),
                    (''created'', at_path i [''fields'', ''created''])]
      else JObject [(''key'', value_or i ''key'' (value_or i ''id'' (JString ''unknown''))),
                    (''summary'', value_or i ''summary''
                                    (value_or i ''summaryText'' (JString ''No summary''))),
                    (''status'', name_or_text w i ''status''),
                    (''type'', name_or_text w i ''issuetype''),
                    (''created'', value_or i ''created'' (JString ''Unknown''))])"

definition issue_list_of :: "json \<Rightarrow> json list" where
  "issue_list_of v = (if isinstance_list v then items_of v else items_of (value_at v ''issues''))"

definition search_body_ok :: "json \<Rightarrow> bool" where
  "search_body_ok v =
     ((isinstance_list v \<or>
       isinstance_dict v \<and> (has_key v ''issues'' \<longrightarrow> isinstance_list (value_at v ''issues'')))
      \<and> list_all issue_entry_ok (issue_list_of v))"

definition search_fields :: "world \<Rightarrow> json \<Rightarrow> json" where
  "search_fields w v =
     JObject [(''total'', if isinstance_dict v
                          then value_or v ''total'' (JInt (int (length (issue_list_of v))))
                          else JInt (int (length (issue_list_of v)))),
              (''issues'', JArray (map (issue_entry_fields w) (issue_list_of v)))]"

text \<open>
  One issue: \<^verbatim>\<open>key\<close> and, under \<^verbatim>\<open>fields\<close>, \<^verbatim>\<open>summary\<close>, \<^verbatim>\<open>status.name\<close>,
  \<^verbatim>\<open>issuetype.name\<close>, \<^verbatim>\<open>created\<close> and \<^verbatim>\<open>updated\<close>; a \<^verbatim>\<open>priority\<close>, if
  present, is an object, and so is an \<^verbatim>\<open>assignee\<close> that is not empty.
\<close>

definition issue_body_ok :: "json \<Rightarrow> bool" where
  "issue_body_ok v =
     (has_key v ''key'' \<and> has_path v [''fields'', ''summary'']
      \<and> has_path v [''fields'', ''status'', ''name'']
      \<and> has_path v [''fields'', ''issuetype'', ''name'']
      \<and> has_path v [''fields'', ''created'']
      \<and> has_path v [''fields'', ''updated'']
      \<and> (has_path v [''fields'', ''priority''] \<longrightarrow>
             isinstance_dict (at_path v [''fields'', ''priority'']))
      \<and> (truthy (at_path v [''fields'', ''assignee'']) \<longrightarrow>
             isinstance_dict (at_path v [''fields'', ''assignee''])))"

definition issue_fields :: "json \<Rightarrow> json" where
  "issue_fields v =
     JObject [(''key'', value_at v ''key''),
              (''summary'', at_path v [''fields'', ''summary'']),
              (''description'', at_path v [''fields'', ''description'']),
              (''status'', at_path v [''fields'', ''status'', ''name'']),
              (''type'', at_path v [''fields'', ''issuetype'', ''name'']),
              (''priority'', at_path v [''fields'', ''priority'', ''name'']),
              (''assignee'', if truthy (at_path v [''fields'', ''assignee''])
                             then at_path v [''fields'', ''assignee'', ''displayName'']
                             else JNull),
              (''created'', at_path v [''fields'', ''created'']),
              (''updated'', at_path v [''fields'', ''updated''])]"

text \<open>A created issue: \<^verbatim>\<open>key\<close>, \<^verbatim>\<open>id\<close> and \<^verbatim>\<open>self\<close>.\<close>

definition created_body_ok :: "json \<Rightarrow> bool" where
  "created_body_ok v = (has_key v ''key'' \<and> has_key v ''id'' \<and> has_key v ''self'')"

definition created_fields :: "json \<Rightarrow> json" where
  "created_fields v =
     JObject [(''key'', value_at v ''key''), (''id'', value_at v ''id''),
              (''self'', value_at v ''self'')]"

text \<open>
  Space list: an object whose \<^verbatim>\<open>results\<close>, if present, is an array of objects with
  \<^verbatim>\<open>key\<close>, \<^verbatim>\<open>name\<close>, \<^verbatim>\<open>type\<close> and \<^verbatim>\<open>id\<close>.
\<close>

definition space_ok :: "json \<Rightarrow> bool" where
  "space_ok s =
     (has_key s ''key'' \<and> has_key s ''name'' \<and> has_key s ''type'' \<and> has_key s ''id'')"

definition space_fields :: "json \<Rightarrow> json" where
  "space_fields s =
     JObject [(''key'', value_at s ''key''), (''name'', value_at s ''name''),
              (''type'', value_at s ''type''), (''id'', value_at s ''id'')]"

definition spaces_body_ok :: "json \<Rightarrow> bool" where
  "spaces_body_ok v =
     (isinstance_dict v
      \<and> (has_key v ''results'' \<longrightarrow> isinstance_list (value_at v ''results''))
      \<and> list_all space_ok (items_of (value_at v ''results'')))"

definition spaces_fields :: "json \<Rightarrow> json" where
  "spaces_fields v =
     JObject [(''spaces'', JArray (map space_fields (items_of (value_at v ''results''))))]"

text \<open>
  Page search: an object whose \<^verbatim>\<open>results\<close>, if present, is an array of pages with
  \<^verbatim>\<open>id\<close>, \<^verbatim>\<open>title\<close> and \<^verbatim>\<open>type\<close>; a page's \<^verbatim>\<open>_expandable\<close>, if present, is
  an object whose \<^verbatim>\<open>space\<close> is empty or a string. The space key is the part of that
  string after its last slash.
\<close>

fun space_key_of :: "json \<Rightarrow> json" where
  "space_key_of (JString s) =
     (if CHR ''/'' \<in> set s then JString (rev (takeWhile (\<lambda>c. c \<noteq> CHR ''/'') (rev s)))
      else JNull)"
| "space_key_of _ = JNull"

definition page_entry_ok :: "json \<Rightarrow> bool" where
  "page_entry_ok p =
     (has_key p ''id'' \<and> has_key p ''title'' \<and> has_key p ''type''
      \<and> (has_key p ''_expandable'' \<longrightarrow> isinstance_dict (value_at p ''_expandable''))
      \<and> (truthy (at_path p [''_expandable'', ''space'']) \<longrightarrow>
             isinstance_str (at_path p [''_expandable'', ''space''])))"

definition page_entry_fields :: "json \<Rightarrow> json" where
  "page_entry_fields p =
     JObject [(''id'', value_at p ''id''), (''title'', value_at p ''title''),
              (''type'', value_at p ''type''),
              (''space'', space_key_of (at_path p [''_expandable'', ''space'']))]"

definition pages_body_ok :: "json \<Rightarrow> bool" where
  "pages_body_ok v =
     (isinstance_dict v
      \<and> (has_key v ''results'' \<longrightarrow> isinstance_list (value_at v ''results''))
      \<and> list_all page_entry_ok (items_of (value_at v ''results'')))"

definition pages_fields :: "json \<Rightarrow> json" where
  "pages_fields v =
     JObject [(''total'', value_or v ''size''
                            (JInt (int (length (items_of (value_at v ''results'')))))),
              (''pages'', JArray (map page_entry_fields (items_of (value_at v ''results''))))]"

text \<open>
  One page: \<^verbatim>\<open>id\<close> and \<^verbatim>\<open>title\<close>; \<^verbatim>\<open>space\<close>, \<^verbatim>\<open>version\<close>, \<^verbatim>\<open>body\<close> and
  \<^verbatim>\<open>body.storage\<close>, where present, are objects.
\<close>

definition page_body_ok :: "json \<Rightarrow> bool" where
  "page_body_ok v =
     (has_key v ''id'' \<and> has_key v ''title''
      \<and> (has_key v ''space'' \<longrightarrow> isinstance_dict (value_at v ''space''))
      \<and> (has_key v ''version'' \<longrightarrow> isinstance_dict (value_at v ''version''))
      \<and> (has_key v ''body'' \<longrightarrow> isinstance_dict (value_at v ''body''))
      \<and> (has_path v [''body'', ''storage''] \<longrightarrow>
             isinstance_dict (at_path v [''body'', ''storage''])))"

definition page_fields :: "json \<Rightarrow> json" where
  "page_fields v =
     JObject [(''id'', value_at v ''id''), (''title'', value_at v ''title''),
              (''space'', at_path v [''space'', ''key'']),
              (''version'', at_path v [''version'', ''number'']),
              (''body'', value_or (at_path v [''body'', ''storage'']) ''value'' (JString []))]"

text \<open>
  Per tool: the upstream status codes on which the connector reads the body, the shape
  of the body it reads, the mapping of domain fields it is to return for such a body,
  and the keys of that mapping.
\<close>

definition success_codes :: "string \<Rightarrow> int list" where
  "success_codes name = (if name = ''jira_create_issue'' then [200, 201] else [200])"

definition expected_shape :: "string \<Rightarrow> json \<Rightarrow> bool" where
  "expected_shape name v =
     (if name = ''jira_get_projects'' then projects_body_ok v
      else if name = ''jira_search_issues'' then search_body_ok v
      else if name = ''jira_get_issue'' then issue_body_ok v
      else if name = ''jira_create_issue'' then created_body_ok v
      else if name = ''confluence_get_spaces'' then spaces_body_ok v
      else if name = ''confluence_search'' then pages_body_ok v
      else if name = ''confluence_get_page'' then page_body_ok v
      else False)"

definition domain_result :: "world \<Rightarrow> string \<Rightarrow> json \<Rightarrow> json" where
  "domain_result w name v =
     (if name = ''jira_get_projects'' then projects_fields v
      else if name = ''jira_search_issues'' then search_fields w v
      else if name = ''jira_get_issue'' then issue_fields v
      else if name = ''jira_create_issue'' then created_fields v
      else if name = ''confluence_get_spaces'' then spaces_fields v
      else if name = ''confluence_search'' then pages_fields v
      else if name = ''confluence_get_page'' then page_fields v
      else JNull)"

definition domain_fields :: "string \<Rightarrow> string list" where
  "domain_fields name =
     (if name = ''jira_get_projects'' then [''projects'']
      else if name = ''jira_search_issues'' then [''total'', ''issues'']
      else if name = ''jira_get_issue'' then
        [''key'', ''summary'', ''description'', ''status'', ''type'', ''priority'',
         ''assignee'', ''created'', ''updated'']
      else if name = ''jira_create_issue'' then [''key'', ''id'', ''self'']
      else if name = ''confluence_get_spaces'' then [''spaces'']
      else if name = ''confluence_search'' then [''total'', ''pages'']
      else if name = ''confluence_get_page'' then
        [''id'', ''title'', ''space'', ''version'', ''body'']
      else [])"

text \<open>
  The parameters with which a connector gets as far as its upstream request: a mapping
  that holds the tool's required parameters, and for the two searches a query text that
  \<^verbatim>\<open>quote\<close> accepts. The two listing tools ignore their parameters.
\<close>

definition accepts :: "string res \<Rightarrow> bool" where
  "accepts q = (case q of Inr s \<Rightarrow> True | Inl e \<Rightarrow> False)"

definition sends_request :: "world \<Rightarrow> string \<Rightarrow> json \<Rightarrow> bool" where
  "sends_request w name params =
     (if name = ''jira_get_projects'' then True
      else if name = ''confluence_get_spaces'' then True
      else if name = ''jira_search_issues'' then
        isinstance_dict params
        \<and> accepts (py_quote w (value_or params ''jql'' (JString ''ORDER BY created DESC'')))
      else if name = ''jira_get_issue'' then truthy (value_at params ''issue_key'')
      else if name = ''jira_create_issue'' then
        truthy (value_at params ''project_key'') \<and> truthy (value_at params ''summary'')
      else if name = ''confluence_search'' then
        truthy (value_at params ''query'')
        \<and> accepts (quote w (''type=page AND title~\"''
                      @ py_str w (value_at params ''query'') @ ''\"''))
      else if name = ''confluence_get_page'' then truthy (value_at params ''page_id'')
      else False)"

text \<open>
  What the outcome of a connector owes to the upstream response: the connector made
  exactly one call; if the response has none of the given status codes, the outcome is
  the error mapping with the response text and the status code; if it has one of them
  and its body decodes to a value of the given shape, the outcome is the given result.
\<close>

definition call_contract ::
  "world \<Rightarrow> int list \<Rightarrow> (json \<Rightarrow> bool) \<Rightarrow> (json \<Rightarrow> json) \<Rightarrow> json traced \<Rightarrow> bool" where
  "call_contract w codes shape result out =
     (\<exists>rq. snd out = [rq] \<and>
        (\<forall>response. requests_request w rq = Inr response \<longrightarrow>
           (resp_status_code response \<notin> set codes \<longrightarrow>
              fst out = Inr (JObject [(''error'', JString (resp_text response)),
                                      (''status_code'', JInt (resp_status_code response))])) \<and>
           (resp_status_code response \<in> set codes \<longrightarrow>
              (\<forall>v. resp_json response = Inr v \<longrightarrow> shape v \<longrightarrow> fst out = Inr (result v)))))"

text \<open>
  The \<^verbatim>\<open>RequestException\<close> that ends the client's POST, if any: the one
  \<^verbatim>\<open>requests.post\<close> raises (connection refused, timeout), or the
  \<^verbatim>\<open>HTTPError\<close> that \<^verbatim>\<open>raise_for_status\<close> raises for an error status.
\<close>

definition transport_failure :: "world \<Rightarrow> MCPClient \<Rightarrow> string \<Rightarrow> json \<Rightarrow> exn option" where
  "transport_failure w self tool_name parameters =
     (case requests_post w (server_url self @ ''/mcp/v1/invoke'')
             (invoke_payload tool_name parameters) 30 of
        Inl e \<Rightarrow> if is_RequestException e then Some e else None
      | Inr response \<Rightarrow>
          (case raise_for_status response of Inl e \<Rightarrow> Some e | Inr u \<Rightarrow> None))"

text \<open>
  The request body of the second end-to-end scenario:
  \<^verbatim>\<open>{"name": "jira_create_issue", "parameters": {"summary": "Title"}}\<close>.
\<close>

definition create_without_project :: json where
  "create_without_project =
     JObject [(''name'', JString ''jira_create_issue''),
              (''parameters'', JObject [(''summary'', JString ''Title'')])]"

text \<open>The status codes of the upstream responses to the calls a connector made.\<close>

definition upstream_statuses :: "world \<Rightarrow> json traced \<Rightarrow> int option list" where
  "upstream_statuses w out =
     map (\<lambda>rq. case requests_request w rq of
                  Inl e \<Rightarrow> None | Inr response \<Rightarrow> Some (resp_status_code response))
         (snd out)"

section \<open>A sample environment\<close>

text \<open>
  A concrete environment for the examples. \<open>url_quote\<close> is
  \<^verbatim>\<open>urllib.parse.quote\<close> on a byte string with the default safe character
  \<^verbatim>\<open>/\<close>; \<open>sample_path\<close>, \<open>sample_int\<close> and \<open>sample_loads\<close> agree with
  \<^verbatim>\<open>urlparse(..).path\<close>, \<^verbatim>\<open>int\<close> and \<^verbatim>\<open>json.loads\<close> on the paths, header values
  and bodies that the examples use.
\<close>

definition always_safe :: "char \<Rightarrow> bool" where
  "always_safe c =
     (c \<in> set (''ABCDEFGHIJKLMNOPQRSTUVWXYZ'' @ ''abcdefghijklmnopqrstuvwxyz''
               @ ''0123456789'' @ ''_.-~'' @ ''/''))"

definition hex_digit :: "nat \<Rightarrow> char" where
  "hex_digit n = ''0123456789ABCDEF'' ! (n mod 16)"

definition url_quote :: "string \<Rightarrow> string" where
  "url_quote s =
     concat (map (\<lambda>c. if always_safe c then [c]
                       else [CHR ''%'', hex_digit (of_char c div 16), hex_digit (of_char c)]) s)"

definition sample_path :: "string \<Rightarrow> string res" where
  "sample_path s = Inr (takeWhile (\<lambda>c. c \<noteq> CHR ''?'' \<and> c \<noteq> CHR ''#'') s)"

definition sample_int :: "string \<Rightarrow> int res" where
  "sample_int s =
     (if s \<noteq> [] \<and> list_all (\<lambda>c. c \<in> set ''0123456789'') s
      then Inr (foldl (\<lambda>a c. 10 * a + (of_char c - 48)) 0 s)
      else Inl ValueError)"

definition sample_loads :: "string \<Rightarrow> json res" where
  "sample_loads s =
     (if s = ''[]'' then Inr (JArray [])
      else if s = ''null'' then Inr JNull
      else if s = ''{\"name\": \"jira_create_issue\", \"parameters\": {\"summary\": \"Title\"}}''
        then Inr create_without_project
      else if s = ''{\"name\": \"does_not_exist\"}''
        then Inr (JObject [(''name'', JString ''does_not_exist'')])
      else if s = ''{\"name\": \"jira_get_projects\"}''
        then Inr (JObject [(''name'', JString ''jira_get_projects'')])
      else Inl JSONDecodeError)"

definition sample_message :: "exn \<Rightarrow> string" where
  "sample_message e =
     (case e of
        ConnectionError \<Rightarrow> ''Connection refused''
      | Timeout \<Rightarrow> ''Read timed out''
      | HTTPError \<Rightarrow> ''404 Client Error: Not Found''
      | RequestsJSONDecodeError \<Rightarrow> ''Expecting value: line 1 column 1 (char 0)''
      | _ \<Rightarrow> ''error'')"

definition sample_world :: "(http_req \<Rightarrow> response res) \<Rightarrow> world" where
  "sample_world upstream =
     \<lparr>ATLASSIAN_URL = ''https://example.atlassian.net'',
      ATLASSIAN_EMAIL = Some ''user@example.com'',
      ATLASSIAN_API_TOKEN = Some ''token'',
      requests_request = upstream,
      requests_post = (\<lambda>url payload timeout. Inl ConnectionError),
      quote = (\<lambda>s. Inr (url_quote s)),
      urlparse_path = sample_path,
      json_loads = sample_loads,
      py_int = sample_int,
      exn_str = sample_message,
      repr_other = (\<lambda>v. ''<repr>''),
      version_string = ''BaseHTTP/0.6 Python/3.12.3'',
      date_time_string = ''Wed, 04 Nov 2026 09:00:00 GMT''\<rparr>"

text \<open>The same environment five seconds later.\<close>

definition later :: "world \<Rightarrow> world" where
  "later w = w\<lparr>date_time_string := ''Wed, 04 Nov 2026 09:00:05 GMT''\<rparr>"

text \<open>Upstream answers: 204 with an empty body, 200 with a body that is not JSON,
  404 with a message, and 200 with one project.\<close>

definition no_content :: "http_req \<Rightarrow> response res" where
  "no_content rq =
     Inr \<lparr>resp_status_code = 204, resp_text = [], resp_json = Inl RequestsJSONDecodeError\<rparr>"

definition ok_not_json :: "http_req \<Rightarrow> response res" where
  "ok_not_json rq =
     Inr \<lparr>resp_status_code = 200, resp_text = ''<html>'',
          resp_json = Inl RequestsJSONDecodeError\<rparr>"

definition not_found :: "http_req \<Rightarrow> response res" where
  "not_found rq =
     Inr \<lparr>resp_status_code = 404, resp_text = ''Issue does not exist'',
          resp_json = Inl RequestsJSONDecodeError\<rparr>"

definition one_project :: "http_req \<Rightarrow> response res" where
  "one_project rq =
     Inr \<lparr>resp_status_code = 200, resp_text = ''[{\"key\": \"HR\", \"name\": \"People\", \"id\": \"1\"}]'',
          resp_json = Inr (JArray [JObject [(''key'', JString ''HR''),
                       (''name'', JString ''People''), (''id'', JString ''1'')]])\<rparr>"

text \<open>The client's side: a server that refuses the connection, and one that answers 404.\<close>

definition refusing :: "string \<Rightarrow> json \<Rightarrow> int \<Rightarrow> response res" where
  "refusing url payload timeout = Inl ConnectionError"

definition answering_404 :: "string \<Rightarrow> json \<Rightarrow> int \<Rightarrow> response res" where
  "answering_404 url payload timeout =
     Inr \<lparr>resp_status_code = 404, resp_text = ''{\"error\": \"Unknown tool: nope\"}'',
          resp_json = Inr (JObject [(''error'', JString ''Unknown tool: nope'')])\<rparr>"

definition client_world :: "(string \<Rightarrow> json \<Rightarrow> int \<Rightarrow> response res) \<Rightarrow> world" where
  "client_world post = (sample_world no_content)\<lparr>requests_post := post\<rparr>"

definition get_request :: "string \<Rightarrow> request" where
  "get_request p = \<lparr>req_path = p, content_length = None, rfile = []\<rparr>"

text \<open>
  An issue as the tracker sends it when no priority is set, and one with a priority and
  an assignee.
\<close>

definition issue_without_priority :: json where
  "issue_without_priority =
     JObject [(''key'', JString ''HR-1''),
              (''fields'', JObject
                 [(''summary'', JString ''Onboarding''),
                  (''status'', JObject [(''name'', JString ''Open'')]),
                  (''issuetype'', JObject [(''name'', JString ''Task'')]),
                  (''priority'', JNull),
                  (''assignee'', JNull),
                  (''created'', JString ''2026-01-01''),
                  (''updated'', JString ''2026-01-02'')])]"

definition issue_with_priority :: json where
  "issue_with_priority =
     JObject [(''key'', JString ''HR-2''),
              (''fields'', JObject
                 [(''summary'', JString ''Payroll''),
                  (''status'', JObject [(''name'', JString ''Open'')]),
                  (''issuetype'', JObject [(''name'', JString ''Bug'')]),
                  (''priority'', JObject [(''name'', JString ''High'')]),
                  (''assignee'', JObject [(''displayName'', JString ''Ada'')]),
                  (''created'', JString ''2026-01-01''),
                  (''updated'', JString ''2026-01-02'')])]"

definition one_issue :: "http_req \<Rightarrow> response res" where
  "one_issue rq =
     Inr \<lparr>resp_status_code = 200, resp_text = ''{...}'', resp_json = Inr issue_with_priority\<rparr>"

definition invoke_post :: "string \<Rightarrow> request" where
  "invoke_post b =
     \<lparr>req_path = ''/mcp/v1/invoke'', content_length = Some (show_nat (length b)), rfile = b\<rparr>"

section \<open>Properties\<close>

subsection \<open>Auxiliary facts\<close>

lemma starts_with_append: "starts_with k (k @ s)"
  by (induction k) auto

lemma substring_prefix: "substring k (k @ s)"
proof (cases "k @ s")
  case Nil
  then show ?thesis by simp
next
  case (Cons c t)
  have "starts_with k (k @ s)" by (rule starts_with_append)
  with Cons show ?thesis by simp
qed

lemma substring_append: "substring k (p @ k @ s)"
  by (induction p) (auto simp: substring_prefix)

lemma do_POST_invoke_request:
  "invoke_request w r data \<Longrightarrow> do_POST w r = do_POST_invoke w data"
  by (auto simp: invoke_request_def do_POST_def split: sum.splits if_splits)

subsection \<open>Discovery and dispatch\<close>

text \<open>
  C9: the names published by the discovery route are exactly the keys of the dispatch
  table. The seven descriptors of \<open>TOOLS\<close> carry, in the same order, the seven
  distinct keys of \<open>TOOL_HANDLERS\<close>; so every advertised tool has a handler and
  every handler is advertised.
\<close>

theorem discovery_matches_dispatch:
  "tool_names = map Some handler_keys \<and> distinct handler_keys \<and> length TOOLS = 7"
  by (simp add: tool_names_def handler_keys_def TOOLS_def TOOL_HANDLERS_def tool_descriptor_def)

text \<open>
  A run of the server never changes the process state, and the answer to the request
  at position \<open>i\<close> is the answer of its handler in the environment of that request.
\<close>

lemma handle_keeps_state: "snd (handle_one_request w st c) = st"
  by (cases c) simp_all

lemma serve_keeps_state: "snd (serve st calls) = st"
proof (induction calls)
  case Nil
  then show ?case by simp
next
  case (Cons wc calls)
  obtain w c where wc: "wc = (w, c)" by (cases wc)
  obtain out st' where h: "handle_one_request w st c = (out, st')"
    by (cases "handle_one_request w st c")
  with handle_keeps_state [of w st c] have st': "st' = st" by simp
  obtain outs st'' where s: "serve st calls = (outs, st'')" by (cases "serve st calls")
  with Cons.IH have "st'' = st" by simp
  with h wc st' s show ?case by simp
qed

lemma serve_nth:
  "i < length calls \<Longrightarrow>
   fst (serve st calls) ! i = fst (handle_one_request (fst (calls ! i)) st (snd (calls ! i)))"
proof (induction calls arbitrary: i)
  case Nil
  then show ?case by simp
next
  case (Cons wc calls)
  obtain w c where wc: "wc = (w, c)" by (cases wc)
  obtain out st' where h: "handle_one_request w st c = (out, st')"
    by (cases "handle_one_request w st c")
  with handle_keeps_state [of w st c] have st': "st' = st" by simp
  obtain outs st'' where s: "serve st calls = (outs, st'')" by (cases "serve st calls")
  show ?case
  proof (cases i)
    case 0
    with h wc st' s show ?thesis by simp
  next
    case (Suc k)
    with Cons.prems have "k < length calls" by simp
    from Cons.IH [OF this] Suc h wc st' s show ?thesis by simp
  qed
qed

text \<open>
  C8: in any run of the server process, whatever requests it holds and however the
  environment (upstream service, clock) changes between them, every GET whose path is
  \<^verbatim>\<open>/mcp/v1/tools\<close> is answered with status 200 and the body
  \<^verbatim>\<open>{"tools": TOOLS}\<close>, the descriptors in the order of the registry's definition;
  so any two such requests of the run get the same status and body. The run leaves the
  registry as it was at startup.
\<close>

theorem tools_listing:
  assumes "i < length calls" and "calls ! i = (w, GET r)"
    and "urlparse_path w (req_path r) = Inr ''/mcp/v1/tools''"
    and "j < length calls" and "calls ! j = (w', GET r')"
    and "urlparse_path w' (req_path r') = Inr ''/mcp/v1/tools''"
  shows "status_and_body (fst (serve startup calls) ! i) =
           Some (200, JObject [(''tools'', JArray TOOLS)]) \<and>
         status_and_body (fst (serve startup calls) ! j) =
           status_and_body (fst (serve startup calls) ! i) \<and>
         snd (serve startup calls) = startup \<and>
         map descriptor_name TOOLS =
           [Some ''jira_get_projects'', Some ''jira_search_issues'', Some ''jira_get_issue'',
            Some ''jira_create_issue'', Some ''confluence_get_spaces'',
            Some ''confluence_search'', Some ''confluence_get_page'']"
proof -
  have a: "status_and_body (fst (serve startup calls) ! i) =
      Some (200, JObject [(''tools'', JArray TOOLS)])"
    using assms(1-3)
    by (simp add: serve_nth do_GET_def startup_def bind_res_def status_and_body_def send_json_def)
  have b: "status_and_body (fst (serve startup calls) ! j) =
      Some (200, JObject [(''tools'', JArray TOOLS)])"
    using assms(4-6)
    by (simp add: serve_nth do_GET_def startup_def bind_res_def status_and_body_def send_json_def)
  have c: "map descriptor_name TOOLS =
           [Some ''jira_get_projects'', Some ''jira_search_issues'', Some ''jira_get_issue'',
            Some ''jira_create_issue'', Some ''confluence_get_spaces'',
            Some ''confluence_search'', Some ''confluence_get_page'']"
    by (simp add: TOOLS_def tool_descriptor_def)
  from a b c serve_keeps_state [of startup calls] show ?thesis by simp
qed

theorem tools_listing_witness:
  "(0::nat) < length [(sample_world no_content, GET (get_request ''/mcp/v1/tools'')),
       (sample_world one_project, POST (invoke_post ''{\"name\": \"jira_get_projects\"}'')),
       (later (sample_world not_found), GET (get_request ''/mcp/v1/tools?again=1''))] \<and>
   (2::nat) < length [(sample_world no_content, GET (get_request ''/mcp/v1/tools'')),
       (sample_world one_project, POST (invoke_post ''{\"name\": \"jira_get_projects\"}'')),
       (later (sample_world not_found), GET (get_request ''/mcp/v1/tools?again=1''))] \<and>
   urlparse_path (sample_world no_content) (req_path (get_request ''/mcp/v1/tools'')) =
     Inr ''/mcp/v1/tools'' \<and>
   urlparse_path (later (sample_world not_found))
     (req_path (get_request ''/mcp/v1/tools?again=1'')) = Inr ''/mcp/v1/tools'' \<and>
   status_and_body (fst (serve startup
      [(sample_world no_content, GET (get_request ''/mcp/v1/tools'')),
       (sample_world one_project, POST (invoke_post ''{\"name\": \"jira_get_projects\"}'')),
       (later (sample_world not_found), GET (get_request ''/mcp/v1/tools?again=1''))]) ! 0) =
     Some (200, JObject [(''tools'', JArray TOOLS)]) \<and>
   status_and_body (fst (serve startup
      [(sample_world no_content, GET (get_request ''/mcp/v1/tools'')),
       (sample_world one_project, POST (invoke_post ''{\"name\": \"jira_get_projects\"}'')),
       (later (sample_world not_found), GET (get_request ''/mcp/v1/tools?again=1''))]) ! 2) =
     Some (200, JObject [(''tools'', JArray TOOLS)])"
proof -
  let ?calls = "[(sample_world no_content, GET (get_request ''/mcp/v1/tools'')),
       (sample_world one_project, POST (invoke_post ''{\"name\": \"jira_get_projects\"}'')),
       (later (sample_world not_found), GET (get_request ''/mcp/v1/tools?again=1''))]"
  have i: "(0::nat) < length ?calls" by simp
  have j: "(2::nat) < length ?calls" by simp
  have ci: "?calls ! 0 = (sample_world no_content, GET (get_request ''/mcp/v1/tools''))"
    by simp
  have cj: "?calls ! 2 =
      (later (sample_world not_found), GET (get_request ''/mcp/v1/tools?again=1''))"
    by simp
  have h1: "urlparse_path (sample_world no_content) (req_path (get_request ''/mcp/v1/tools'')) =
      Inr ''/mcp/v1/tools''"
    by (simp add: sample_world_def get_request_def sample_path_def)
  have h2: "urlparse_path (later (sample_world not_found))
      (req_path (get_request ''/mcp/v1/tools?again=1'')) = Inr ''/mcp/v1/tools''"
    by (simp add: later_def sample_world_def get_request_def sample_path_def)
  from tools_listing [OF i ci h1 j cj h2] have
    "status_and_body (fst (serve startup ?calls) ! 0) =
       Some (200, JObject [(''tools'', JArray TOOLS)])"
    "status_and_body (fst (serve startup ?calls) ! 2) =
       status_and_body (fst (serve startup ?calls) ! 0)"
    by blast+
  with i j h1 h2 show ?thesis by simp
qed

text \<open>
  The whole responses of two such requests differ where the clock has moved: the
  \<^verbatim>\<open>Date\<close> header is part of each.
\<close>

lemma tools_listing_date_differs:
  "do_GET (sample_world no_content) startup (get_request ''/mcp/v1/tools'') \<noteq>
   do_GET (later (sample_world no_content)) startup (get_request ''/mcp/v1/tools'')"
  by (simp add: do_GET_def later_def sample_world_def get_request_def sample_path_def
      send_json_def bind_res_def)

subsection \<open>The empty body\<close>

text \<open>
  C10: a POST to \<^verbatim>\<open>/mcp/v1/invoke\<close> whose \<^verbatim>\<open>Content-Length\<close> is 0 (or absent,
  which reads as 0) is handled as the empty JSON object: the answer is status 400 with
  the body \<^verbatim>\<open>{"error": "Tool name is required"}\<close>, which is not the answer
  \<^verbatim>\<open>{"error": "Invalid JSON"}\<close> for malformed JSON; nothing is looked up; and
  \<^verbatim>\<open>json.loads\<close> has no part in it, since the answer is the same whatever that
  function does.
\<close>

theorem empty_body_is_empty_object:
  assumes "urlparse_path w (req_path r) = Inr ''/mcp/v1/invoke''"
    and "content_length_value w r = Inr 0"
  shows "do_POST w r = do_POST_invoke w (JObject []) \<and>
         status_and_body (fst (do_POST w r)) =
           Some (400, JObject [(''error'', JString ''Tool name is required'')]) \<and>
         status_and_body (fst (do_POST w r)) \<noteq>
           Some (400, JObject [(''error'', JString ''Invalid JSON'')]) \<and>
         snd (do_POST w r) = [] \<and>
         status_and_body (fst (do_POST (w\<lparr>json_loads := loads\<rparr>) r)) =
           status_and_body (fst (do_POST w r))"
proof -
  have a: "do_POST w r = do_POST_invoke w (JObject [])"
    using assms by (simp add: do_POST_def rfile_read_def)
  have b: "do_POST_invoke w (JObject []) =
      (Inr (send_json w (JObject [(''error'', JString ''Tool name is required'')]) 400), [])"
    by (simp add: do_POST_invoke_def)
  have "content_length_value (w\<lparr>json_loads := loads\<rparr>) r = content_length_value w r"
    by (cases "content_length r") (simp_all add: content_length_value_def)
  with assms have c: "do_POST (w\<lparr>json_loads := loads\<rparr>) r =
      (Inr (send_json (w\<lparr>json_loads := loads\<rparr>)
         (JObject [(''error'', JString ''Tool name is required'')]) 400), [])"
    by (simp add: do_POST_def do_POST_invoke_def rfile_read_def)
  from a b c show ?thesis by (simp add: status_and_body_def send_json_def)
qed

theorem empty_body_is_empty_object_witness:
  "urlparse_path (sample_world no_content) (req_path (invoke_post [])) = Inr ''/mcp/v1/invoke'' \<and>
   content_length_value (sample_world no_content) (invoke_post []) = Inr 0 \<and>
   json_loads (sample_world no_content) [] = Inl JSONDecodeError \<and>
   status_and_body (fst (do_POST (sample_world no_content) (invoke_post []))) =
     Some (400, JObject [(''error'', JString ''Tool name is required'')]) \<and>
   snd (do_POST (sample_world no_content) (invoke_post [])) = []"
proof -
  have h1: "urlparse_path (sample_world no_content) (req_path (invoke_post [])) =
      Inr ''/mcp/v1/invoke''"
    by (simp add: sample_world_def invoke_post_def sample_path_def)
  have h2: "content_length_value (sample_world no_content) (invoke_post []) = Inr 0"
    by (simp add: sample_world_def invoke_post_def content_length_value_def sample_int_def
        show_nat.simps)
  have h3: "json_loads (sample_world no_content) [] = Inl JSONDecodeError"
    by (simp add: sample_world_def sample_loads_def)
  from empty_body_is_empty_object [OF h1 h2] have
    "status_and_body (fst (do_POST (sample_world no_content) (invoke_post []))) =
       Some (400, JObject [(''error'', JString ''Tool name is required'')])"
    "snd (do_POST (sample_world no_content) (invoke_post [])) = []"
    by blast+
  with h1 h2 h3 show ?thesis by blast
qed

subsection \<open>The dispatcher on a JSON object\<close>

text \<open>
  What \<^verbatim>\<open>do_POST\<close> answers when the body decodes to a JSON object: 400 for a body
  that \<^verbatim>\<open>json.loads\<close> rejects and for a missing or falsy name, 200 with the
  handler's return value as \<^verbatim>\<open>result\<close>, 500 with the exception's message as
  \<^verbatim>\<open>error\<close>.
\<close>

lemma post_malformed_json:
  assumes "urlparse_path w (req_path r) = Inr path"
    and "content_length_value w r = Inr n"
    and "rfile_read (rfile r) n \<noteq> []"
    and "json_loads w (rfile_read (rfile r) n) = Inl e"
    and "is_JSONDecodeError e"
  shows "status_and_body (fst (do_POST w r)) =
           Some (400, JObject [(''error'', JString ''Invalid JSON'')]) \<and>
         snd (do_POST w r) = []"
  using assms by (simp add: do_POST_def status_and_body_def send_json_def)

lemma post_name_missing:
  assumes "invoke_request w r (JObject kvs)" and "absent_or_empty kvs ''name''"
  shows "status_and_body (fst (do_POST w r)) =
           Some (400, JObject [(''error'', JString ''Tool name is required'')]) \<and>
         snd (do_POST w r) = []"
  using assms
  by (auto simp: do_POST_invoke_request do_POST_invoke_def absent_or_empty_def
      status_and_body_def send_json_def split: option.splits)

lemma handlers_get_known:
  "map_of TOOL_HANDLERS s = Some h \<Longrightarrow>
   truthy (JString s) \<and> handlers_get (JString s) = Inr (Some h)"
  by (auto simp: handlers_get_def TOOL_HANDLERS_def split: if_splits)

lemma post_handler_returns:
  assumes "invoke_request w r (JObject kvs)"
    and "map_of kvs ''name'' = Some (JString s)"
    and "map_of TOOL_HANDLERS s = Some h"
    and "h w (case map_of kvs ''parameters'' of Some p \<Rightarrow> p | None \<Rightarrow> JObject []) =
           (Inr result, calls)"
  shows "status_and_body (fst (do_POST w r)) =
           Some (200, JObject [(''result'', result), (''error'', JNull)]) \<and>
         snd (do_POST w r) =
           Lookup (JString s)
             # Invoke (JString s)
                 (case map_of kvs ''parameters'' of Some p \<Rightarrow> p | None \<Rightarrow> JObject [])
             # map Upstream calls"
  using assms handlers_get_known [OF assms(3)]
  by (simp add: do_POST_invoke_request do_POST_invoke_def status_and_body_def send_json_def)

lemma post_handler_raises:
  assumes "invoke_request w r (JObject kvs)"
    and "map_of kvs ''name'' = Some (JString s)"
    and "map_of TOOL_HANDLERS s = Some h"
    and "h w (case map_of kvs ''parameters'' of Some p \<Rightarrow> p | None \<Rightarrow> JObject []) =
           (Inl e, calls)"
  shows "status_and_body (fst (do_POST w r)) =
           Some (500, JObject [(''result'', JNull), (''error'', JString (exn_str w e))]) \<and>
         snd (do_POST w r) =
           Lookup (JString s)
             # Invoke (JString s)
                 (case map_of kvs ''parameters'' of Some p \<Rightarrow> p | None \<Rightarrow> JObject [])
             # map Upstream calls"
  using assms handlers_get_known [OF assms(3)]
  by (simp add: do_POST_invoke_request do_POST_invoke_def status_and_body_def send_json_def)

text \<open>
  An upstream error is a return value of the connector: the status is 200 and the
  error travels inside \<^verbatim>\<open>result\<close>.
\<close>

lemma upstream_error_in_body_example:
  "status_and_body (fst (do_POST (sample_world not_found)
      (invoke_post ''{\"name\": \"jira_get_projects\"}''))) =
     Some (200, JObject [(''result'', JObject [(''error'', JString ''Issue does not exist''),
                                               (''status_code'', JInt 404)]),
                         (''error'', JNull)]) \<and>
   snd (do_POST (sample_world not_found) (invoke_post ''{\"name\": \"jira_get_projects\"}'')) =
      [Lookup (JString ''jira_get_projects''),
       Invoke (JString ''jira_get_projects'') (JObject []),
       Upstream \<lparr>req_method = ''GET'',
                 req_url = ''https://example.atlassian.net/rest/api/3/project'',
                 req_headers = json_headers,
                 req_auth = (Some ''user@example.com'', Some ''token''),
                 req_json = None\<rparr>]"
  by (simp add: do_POST_def do_POST_invoke_def sample_world_def invoke_post_def sample_path_def
      content_length_value_def sample_int_def show_nat.simps rfile_read_def sample_loads_def
      handlers_get_def TOOL_HANDLERS_def tool_jira_get_projects_def jira_request_def
      get_auth_def not_found_def upstream_error_def bind_res_def status_and_body_def send_json_def)

text \<open>
  A list or a dictionary as the name cannot be a key: the lookup raises
  \<^verbatim>\<open>TypeError\<close> outside the \<^verbatim>\<open>try\<close>, and no response is written.
\<close>

lemma unhashable_name_no_response:
  assumes "invoke_request w r (JObject kvs)"
    and "map_of kvs ''name'' = Some v"
    and "truthy v"
    and "\<not> hashable v"
  shows "do_POST w r = (Inl TypeError, [Lookup v])"
  using assms by (simp add: do_POST_invoke_request do_POST_invoke_def handlers_get_def)

subsection \<open>Unknown tools\<close>

text \<open>
  C5: a POST to \<^verbatim>\<open>/mcp/v1/invoke\<close> whose name field is a non-empty string that is
  not a key of the dispatch table is answered with status 404 and the body
  \<^verbatim>\<open>{"error": "Unknown tool: <name>"}\<close>, an error that contains the name
  literally; the only step taken is the lookup, so no handler is invoked and no
  upstream call is made.
\<close>

theorem unknown_tool_not_found:
  assumes "invoke_request w r (JObject kvs)"
    and "map_of kvs ''name'' = Some (JString s)"
    and "s \<noteq> []"
    and "s \<notin> set handler_keys"
  shows "status_and_body (fst (do_POST w r)) =
           Some (404, JObject [(''error'', JString (''Unknown tool: '' @ s))]) \<and>
         snd (do_POST w r) = [Lookup (JString s)] \<and>
         substring s (''Unknown tool: '' @ s)"
proof -
  have none: "map_of TOOL_HANDLERS s = None"
    using assms(4) by (simp add: handler_keys_def map_of_eq_None_iff)
  have "do_POST w r = do_POST_invoke w (JObject kvs)"
    using assms(1) by (rule do_POST_invoke_request)
  then have "do_POST w r =
           (Inr (send_json w (JObject [(''error'', JString (''Unknown tool: '' @ s))]) 404),
            [Lookup (JString s)])"
    using assms(2,3) none by (simp add: do_POST_invoke_def handlers_get_def)
  then have "status_and_body (fst (do_POST w r)) =
           Some (404, JObject [(''error'', JString (''Unknown tool: '' @ s))])"
    and "snd (do_POST w r) = [Lookup (JString s)]"
    by (simp_all add: status_and_body_def send_json_def)
  moreover have "substring s (''Unknown tool: '' @ s)"
    using substring_append [of s "''Unknown tool: ''" "[]"] by simp
  ultimately show ?thesis by blast
qed

theorem unknown_tool_not_found_witness:
  "invoke_request (sample_world one_project) (invoke_post ''{\"name\": \"does_not_exist\"}'')
     (JObject [(''name'', JString ''does_not_exist'')]) \<and>
   ''does_not_exist'' \<notin> set handler_keys \<and>
   status_and_body (fst (do_POST (sample_world one_project)
       (invoke_post ''{\"name\": \"does_not_exist\"}''))) =
     Some (404, JObject [(''error'', JString ''Unknown tool: does_not_exist'')]) \<and>
   snd (do_POST (sample_world one_project) (invoke_post ''{\"name\": \"does_not_exist\"}'')) =
     [Lookup (JString ''does_not_exist'')]"
proof -
  have h1: "invoke_request (sample_world one_project)
      (invoke_post ''{\"name\": \"does_not_exist\"}'')
      (JObject [(''name'', JString ''does_not_exist'')])"
    by (simp add: invoke_request_def sample_world_def invoke_post_def sample_path_def
        content_length_value_def sample_int_def show_nat.simps rfile_read_def sample_loads_def)
  have h2: "map_of [(''name'', JString ''does_not_exist'')] ''name'' =
      Some (JString ''does_not_exist'')"
    by simp
  have h3: "''does_not_exist'' \<noteq> []" by simp
  have h4: "''does_not_exist'' \<notin> set handler_keys"
    by (simp add: handler_keys_def TOOL_HANDLERS_def)
  from unknown_tool_not_found [OF h1 h2 h3 h4] h1 h4 show ?thesis by simp
qed

subsection \<open>Creating an issue without a project key\<close>

text \<open>
  C2, as the code has it: invoking \<^verbatim>\<open>jira_create_issue\<close> with
  \<^verbatim>\<open>{"summary": "Title"}\<close> is answered with status 200 and the envelope
  \<^verbatim>\<open>{"result": {"error": "project_key and summary are required"}, "error": null}\<close>.
  The connector returns its message as a value, so the dispatcher puts it under
  \<^verbatim>\<open>result\<close> and leaves the envelope's \<^verbatim>\<open>error\<close> null; no upstream call is
  made.
\<close>

theorem create_issue_without_project_key:
  assumes "invoke_request w r create_without_project"
  shows "status_and_body (fst (do_POST w r)) =
           Some (200,
             JObject [(''result'',
                         JObject [(''error'', JString ''project_key and summary are required'')]),
                      (''error'', JNull)]) \<and>
         envelope_of
             (JObject [(''result'',
                         JObject [(''error'', JString ''project_key and summary are required'')]),
                       (''error'', JNull)]) =
           Some (JObject [(''error'', JString ''project_key and summary are required'')], JNull) \<and>
         snd (do_POST w r) =
           [Lookup (JString ''jira_create_issue''),
            Invoke (JString ''jira_create_issue'') (JObject [(''summary'', JString ''Title'')])]"
proof -
  have "do_POST w r = do_POST_invoke w create_without_project"
    using assms by (rule do_POST_invoke_request)
  then show ?thesis
    by (simp add: do_POST_invoke_def create_without_project_def handlers_get_def
        TOOL_HANDLERS_def tool_jira_create_issue_def required_error_def
        status_and_body_def send_json_def)
qed

theorem create_issue_without_project_key_witness:
  "invoke_request (sample_world one_project)
     (invoke_post ''{\"name\": \"jira_create_issue\", \"parameters\": {\"summary\": \"Title\"}}'')
     create_without_project \<and>
   status_and_body (fst (do_POST (sample_world one_project)
     (invoke_post ''{\"name\": \"jira_create_issue\", \"parameters\": {\"summary\": \"Title\"}}''))) =
     Some (200,
       JObject [(''result'',
                   JObject [(''error'', JString ''project_key and summary are required'')]),
                (''error'', JNull)]) \<and>
   snd (do_POST (sample_world one_project)
     (invoke_post ''{\"name\": \"jira_create_issue\", \"parameters\": {\"summary\": \"Title\"}}'')) =
     [Lookup (JString ''jira_create_issue''),
      Invoke (JString ''jira_create_issue'') (JObject [(''summary'', JString ''Title'')])]"
proof -
  have h1: "invoke_request (sample_world one_project)
     (invoke_post ''{\"name\": \"jira_create_issue\", \"parameters\": {\"summary\": \"Title\"}}'')
     create_without_project"
    by (simp add: invoke_request_def sample_world_def invoke_post_def sample_path_def
        content_length_value_def sample_int_def show_nat.simps rfile_read_def sample_loads_def)
  from create_issue_without_project_key [OF h1] h1 show ?thesis by blast
qed

text \<open>
  The claim as the specification words it fails on this request: the response carries
  the message under \<^verbatim>\<open>result\<close>, so its envelope is not (\<^verbatim>\<open>result\<close> null,
  \<^verbatim>\<open>error\<close> the message).
\<close>

theorem create_issue_envelope_counterexample:
  "status_and_body (fst (do_POST (sample_world no_content)
     (invoke_post ''{\"name\": \"jira_create_issue\", \"parameters\": {\"summary\": \"Title\"}}''))) =
     Some (200,
       JObject [(''result'',
                   JObject [(''error'', JString ''project_key and summary are required'')]),
                (''error'', JNull)]) \<and>
   envelope_of
       (JObject [(''result'',
                   JObject [(''error'', JString ''project_key and summary are required'')]),
                 (''error'', JNull)]) \<noteq>
     Some (JNull, JString ''project_key and summary are required'')"
  by (simp add: do_POST_def do_POST_invoke_def sample_world_def invoke_post_def sample_path_def
        content_length_value_def sample_int_def show_nat.simps rfile_read_def sample_loads_def
        create_without_project_def handlers_get_def TOOL_HANDLERS_def tool_jira_create_issue_def
        required_error_def status_and_body_def send_json_def)

subsection \<open>Bodies that are JSON but not an object\<close>

text \<open>
  C1: the status is 400 for malformed JSON and a missing name, 404 for an unknown tool,
  500 for a handler exception and 200 otherwise, as the lemmas above show for a body
  that is a JSON object. A body that is valid JSON of another kind (an array, a string,
  a number, \<^verbatim>\<open>null\<close>) has no name field, yet gets no status at all:
  \<^verbatim>\<open>data.get("name")\<close> raises \<^verbatim>\<open>AttributeError\<close> outside both \<^verbatim>\<open>try\<close>
  blocks, and \<^verbatim>\<open>do_POST\<close> ends without writing a response.
\<close>

theorem non_object_body_no_response:
  assumes "invoke_request w r data" and "\<not> isinstance_dict data"
  shows "do_POST w r = (Inl AttributeError, [])"
proof -
  have "do_POST w r = do_POST_invoke w data"
    using assms(1) by (rule do_POST_invoke_request)
  moreover have "do_POST_invoke w data = (Inl AttributeError, [])"
    using assms(2) by (cases data) (simp_all add: do_POST_invoke_def)
  ultimately show ?thesis by simp
qed

theorem non_object_body_no_response_witness:
  "invoke_request (sample_world one_project) (invoke_post ''[]'') (JArray []) \<and>
   \<not> isinstance_dict (JArray []) \<and>
   do_POST (sample_world one_project) (invoke_post ''[]'') = (Inl AttributeError, [])"
proof -
  have h1: "invoke_request (sample_world one_project) (invoke_post ''[]'') (JArray [])"
    by (simp add: invoke_request_def sample_world_def invoke_post_def sample_path_def
        content_length_value_def sample_int_def show_nat.simps rfile_read_def sample_loads_def)
  have h2: "\<not> isinstance_dict (JArray [])" by simp
  from non_object_body_no_response [OF h1 h2] h1 h2 show ?thesis by blast
qed

text \<open>
  C6: a request without a tool name is answered with status 400 and
  \<^verbatim>\<open>{"error": "Tool name is required"}\<close> before any lookup when its body is empty
  or a JSON object (lemma \<open>post_name_missing\<close>). The body
  \<^verbatim>\<open>null\<close> carries no tool name either, and the same uncaught
  \<^verbatim>\<open>AttributeError\<close> leaves it without a response.
\<close>

theorem null_body_no_response:
  "do_POST (sample_world one_project) (invoke_post ''null'') = (Inl AttributeError, [])"
  by (simp add: do_POST_def do_POST_invoke_def sample_world_def invoke_post_def sample_path_def
        content_length_value_def sample_int_def show_nat.simps rfile_read_def sample_loads_def)

subsection \<open>Required parameters\<close>

text \<open>
  C4: the registry declares required parameters for four tools. Each of their
  connectors, called with a parameter mapping in
  which that parameter is absent or empty (falsy), returns
  \<^verbatim>\<open>{"error": "<message>"}\<close> with a message that contains the parameter's name,
  and its list of upstream calls is empty. For \<^verbatim>\<open>jira_create_issue\<close> either of
  \<^verbatim>\<open>project_key\<close> and \<^verbatim>\<open>summary\<close> missing gives the one message that names
  both.
\<close>

theorem required_parameter_checked:
  "(absent_or_empty kvs ''issue_key'' \<longrightarrow>
      tool_jira_get_issue w (JObject kvs) =
        (Inr (JObject [(''error'', JString ''issue_key is required'')]), [])) \<and>
   (absent_or_empty kvs ''page_id'' \<longrightarrow>
      tool_confluence_get_page w (JObject kvs) =
        (Inr (JObject [(''error'', JString ''page_id is required'')]), [])) \<and>
   (absent_or_empty kvs ''query'' \<longrightarrow>
      tool_confluence_search w (JObject kvs) =
        (Inr (JObject [(''error'', JString ''query is required'')]), [])) \<and>
   (absent_or_empty kvs ''project_key'' \<or> absent_or_empty kvs ''summary'' \<longrightarrow>
      tool_jira_create_issue w (JObject kvs) =
        (Inr (JObject [(''error'', JString ''project_key and summary are required'')]), [])) \<and>
   substring ''issue_key'' ''issue_key is required'' \<and>
   substring ''page_id'' ''page_id is required'' \<and>
   substring ''query'' ''query is required'' \<and>
   substring ''project_key'' ''project_key and summary are required'' \<and>
   substring ''summary'' ''project_key and summary are required'' \<and>
   map required_parameters TOOLS =
     [[], [], [''issue_key''], [''project_key'', ''summary''], [], [''query''], [''page_id'']]"
proof -
  have declared: "map required_parameters TOOLS =
     [[], [], [''issue_key''], [''project_key'', ''summary''], [], [''query''], [''page_id'']]"
    by (simp add: TOOLS_def tool_descriptor_def parameter_spec_def)
  have issue: "absent_or_empty kvs ''issue_key'' \<longrightarrow>
      tool_jira_get_issue w (JObject kvs) =
        (Inr (JObject [(''error'', JString ''issue_key is required'')]), [])"
    by (auto simp: absent_or_empty_def tool_jira_get_issue_def required_error_def
        split: option.splits)
  have page: "absent_or_empty kvs ''page_id'' \<longrightarrow>
      tool_confluence_get_page w (JObject kvs) =
        (Inr (JObject [(''error'', JString ''page_id is required'')]), [])"
    by (auto simp: absent_or_empty_def tool_confluence_get_page_def required_error_def
        split: option.splits)
  have query: "absent_or_empty kvs ''query'' \<longrightarrow>
      tool_confluence_search w (JObject kvs) =
        (Inr (JObject [(''error'', JString ''query is required'')]), [])"
    by (auto simp: absent_or_empty_def tool_confluence_search_def required_error_def
        split: option.splits)
  have create: "absent_or_empty kvs ''project_key'' \<or> absent_or_empty kvs ''summary'' \<longrightarrow>
      tool_jira_create_issue w (JObject kvs) =
        (Inr (JObject [(''error'', JString ''project_key and summary are required'')]), [])"
    by (auto simp: absent_or_empty_def tool_jira_create_issue_def required_error_def
        split: option.splits)
  have s1: "substring ''issue_key'' ''issue_key is required''"
    using substring_append [of "''issue_key''" "[]" "'' is required''"] by simp
  have s2: "substring ''page_id'' ''page_id is required''"
    using substring_append [of "''page_id''" "[]" "'' is required''"] by simp
  have s3: "substring ''query'' ''query is required''"
    using substring_append [of "''query''" "[]" "'' is required''"] by simp
  have s4: "substring ''project_key'' ''project_key and summary are required''"
    using substring_append [of "''project_key''" "[]" "'' and summary are required''"] by simp
  have s5: "substring ''summary'' ''project_key and summary are required''"
    using substring_append [of "''summary''" "''project_key and ''" "'' are required''"] by simp
  from issue page query create s1 s2 s3 s4 s5 declared show ?thesis by blast
qed

theorem required_parameter_checked_witness:
  "absent_or_empty [] ''issue_key'' \<and>
   absent_or_empty [(''page_id'', JString [])] ''page_id'' \<and>
   absent_or_empty [(''max_results'', JInt 5)] ''query'' \<and>
   absent_or_empty [(''summary'', JString ''Title'')] ''project_key'' \<and>
   tool_jira_get_issue (sample_world one_project) (JObject []) =
     (Inr (JObject [(''error'', JString ''issue_key is required'')]), []) \<and>
   tool_confluence_get_page (sample_world one_project) (JObject [(''page_id'', JString [])]) =
     (Inr (JObject [(''error'', JString ''page_id is required'')]), []) \<and>
   tool_confluence_search (sample_world one_project) (JObject [(''max_results'', JInt 5)]) =
     (Inr (JObject [(''error'', JString ''query is required'')]), []) \<and>
   tool_jira_create_issue (sample_world one_project) (JObject [(''summary'', JString ''Title'')]) =
     (Inr (JObject [(''error'', JString ''project_key and summary are required'')]), [])"
proof -
  have h1: "absent_or_empty [] ''issue_key''" by (simp add: absent_or_empty_def)
  have h2: "absent_or_empty [(''page_id'', JString [])] ''page_id''"
    by (simp add: absent_or_empty_def)
  have h3: "absent_or_empty [(''max_results'', JInt 5)] ''query''"
    by (simp add: absent_or_empty_def)
  have h4: "absent_or_empty [(''summary'', JString ''Title'')] ''project_key''"
    by (simp add: absent_or_empty_def)
  from required_parameter_checked [of "[]" "sample_world one_project"] h1
  have a: "tool_jira_get_issue (sample_world one_project) (JObject []) =
     (Inr (JObject [(''error'', JString ''issue_key is required'')]), [])" by blast
  from required_parameter_checked [of "[(''page_id'', JString [])]" "sample_world one_project"] h2
  have b: "tool_confluence_get_page (sample_world one_project)
       (JObject [(''page_id'', JString [])]) =
     (Inr (JObject [(''error'', JString ''page_id is required'')]), [])" by blast
  from required_parameter_checked [of "[(''max_results'', JInt 5)]" "sample_world one_project"] h3
  have c: "tool_confluence_search (sample_world one_project)
       (JObject [(''max_results'', JInt 5)]) =
     (Inr (JObject [(''error'', JString ''query is required'')]), [])" by blast
  from required_parameter_checked [of "[(''summary'', JString ''Title'')]"
      "sample_world one_project"] h4
  have d: "tool_jira_create_issue (sample_world one_project)
       (JObject [(''summary'', JString ''Title'')]) =
     (Inr (JObject [(''error'', JString ''project_key and summary are required'')]), [])"
    by blast
  from h1 h2 h3 h4 a b c d show ?thesis by blast
qed

subsection \<open>Connectors and the upstream status\<close>

text \<open>
  The code's reads of a JSON value agree with the total accessors wherever the value
  has the shape the read needs.
\<close>

lemma bind_res_Inl [simp]: "bind_res (Inl e) f = Inl e"
  by (simp add: bind_res_def)

lemma bind_res_value [simp]: "bind_res (Inr v) f = f v"
  by (simp add: bind_res_def)

lemma has_key_dict: "has_key v k \<Longrightarrow> isinstance_dict v"
  by (cases v) simp_all

lemma map_of_Some_key: "map_of kvs k = Some x \<Longrightarrow> k \<in> fst ` set kvs"
  by (metis map_of_eq_None_iff option.distinct(1))

lemma value_at_absent: "\<not> has_key v k \<Longrightarrow> value_at v k = JNull"
  by (cases v) (auto split: option.splits dest: map_of_Some_key)

lemma value_or_null: "value_or v k JNull = value_at v k"
  by (simp add: value_or_def value_at_absent)

lemma py_index_value_at: "has_key v k \<Longrightarrow> py_index v k = Inr (value_at v k)"
  by (cases v) (auto simp: map_of_eq_None_iff split: option.splits)

lemma py_get_value_or: "isinstance_dict v \<Longrightarrow> py_get v k d = Inr (value_or v k d)"
  by (cases v) (auto simp: value_or_def map_of_eq_None_iff split: option.splits
      dest: map_of_Some_key)

lemma py_path_at_path: "has_path v ks \<Longrightarrow> py_path v ks = Inr (at_path v ks)"
  by (induction ks arbitrary: v) (simp_all add: py_index_value_at)

lemma py_in_has_key: "isinstance_dict v \<Longrightarrow> py_in k v = Inr (has_key v k)"
  by (cases v) simp_all

lemma py_iter_items: "isinstance_list v \<Longrightarrow> py_iter v = Inr (items_of v)"
  by (cases v) simp_all

lemma mapM_res_map:
  "list_all (\<lambda>x. f x = Inr (g x)) xs \<Longrightarrow> mapM_res f xs = Inr (map g xs)"
  by (induction xs) simp_all

lemma list_all_weaken: "list_all P xs \<Longrightarrow> (\<And>x. P x \<Longrightarrow> Q x) \<Longrightarrow> list_all Q xs"
  by (induction xs) simp_all


text \<open>
  On a body of the expected shape each connector's normalisation returns the domain
  fields of its tool.
\<close>

lemma project_entry_fields:
  "project_ok p \<Longrightarrow> project_entry p = Inr (project_fields p)"
  by (simp add: project_ok_def project_entry_def project_fields_def py_index_value_at)

lemma projects_result_fields:
  assumes "projects_body_ok v"
  shows "projects_result v = Inr (projects_fields v)"
proof -
  have "list_all (\<lambda>p. project_entry p = Inr (project_fields p)) (items_of v)"
    using assms by (auto simp: projects_body_ok_def project_entry_fields elim: list_all_weaken)
  then show ?thesis
    using assms
    by (simp add: projects_result_def projects_fields_def projects_body_ok_def py_iter_items
        mapM_res_map)
qed

lemma created_result_fields:
  "created_body_ok v \<Longrightarrow> created_result v = Inr (created_fields v)"
  by (simp add: created_body_ok_def created_result_def created_fields_def py_index_value_at)

lemma space_entry_fields:
  "space_ok s \<Longrightarrow> space_entry s = Inr (space_fields s)"
  by (simp add: space_ok_def space_entry_def space_fields_def py_index_value_at)

lemma results_items:
  assumes "isinstance_dict v" and "has_key v ''results'' \<longrightarrow> isinstance_list (value_at v ''results'')"
  shows "bind_res (py_get v ''results'' (JArray [])) py_iter = Inr (items_of (value_at v ''results''))"
  using assms by (auto simp: py_get_value_or value_or_def py_iter_items value_at_absent)

lemma spaces_result_fields:
  assumes "spaces_body_ok v"
  shows "spaces_result v = Inr (spaces_fields v)"
proof -
  have items: "list_all (\<lambda>s. space_entry s = Inr (space_fields s)) (items_of (value_at v ''results''))"
    using assms by (auto simp: spaces_body_ok_def space_entry_fields elim: list_all_weaken)
  have "bind_res (py_get v ''results'' (JArray [])) py_iter = Inr (items_of (value_at v ''results''))"
    using assms by (intro results_items) (simp_all add: spaces_body_ok_def)
  then obtain res where "py_get v ''results'' (JArray []) = Inr res"
    and "py_iter res = Inr (items_of (value_at v ''results''))"
    by (cases "py_get v ''results'' (JArray [])") simp_all
  then show ?thesis
    using items by (simp add: spaces_result_def spaces_fields_def mapM_res_map)
qed

lemma name_or_str_text:
  "isinstance_dict i \<Longrightarrow> name_or_str w i k = Inr (name_or_text w i k)"
  by (auto simp: name_or_str_def name_or_text_def get_of_def py_get_value_or value_or_null
      value_or_def value_at_absent)

lemma search_issue_entry_fields:
  assumes "issue_entry_ok i"
  shows "search_issue_entry w i = Inr (issue_entry_fields w i)"
proof (cases "has_key i ''fields''")
  case True
  then have "isinstance_dict i" by (rule has_key_dict)
  with True assms show ?thesis
    by (simp add: issue_entry_ok_def search_issue_entry_def issue_entry_fields_def
        py_in_has_key py_index_value_at py_path_at_path del: py_path.simps has_path.simps at_path.simps)
next
  case False
  with assms have d: "isinstance_dict i" by (simp add: issue_entry_ok_def)
  with False show ?thesis
    by (simp add: search_issue_entry_def issue_entry_fields_def py_in_has_key py_get_value_or
        name_or_str_text)
qed

lemma search_result_fields:
  assumes "search_body_ok v"
  shows "search_result w v = Inr (search_fields w v)"
proof -
  have items: "list_all (\<lambda>i. search_issue_entry w i = Inr (issue_entry_fields w i)) (issue_list_of v)"
    using assms by (auto simp: search_body_ok_def search_issue_entry_fields elim: list_all_weaken)
  have list: "bind_res (if isinstance_list v then Inr v else py_get v ''issues'' (JArray [])) py_iter
      = Inr (issue_list_of v)"
    using assms
    by (auto simp: search_body_ok_def issue_list_of_def py_iter_items py_get_value_or value_or_def
        value_at_absent)
  then obtain il where il: "(if isinstance_list v then Inr v else py_get v ''issues'' (JArray [])) = Inr il"
    and it: "py_iter il = Inr (issue_list_of v)"
    by (cases "if isinstance_list v then Inr v else py_get v ''issues'' (JArray [])") simp_all
  show ?thesis
  proof (cases "isinstance_dict v")
    case True
    then show ?thesis
      unfolding search_result_def search_fields_def il
      using it items by (simp add: mapM_res_map py_get_value_or)
  next
    case False
    then show ?thesis
      unfolding search_result_def search_fields_def il
      using it items by (simp add: mapM_res_map)
  qed
qed

lemma issue_result_fields:
  assumes "issue_body_ok v"
  shows "issue_result v = Inr (issue_fields v)"
proof -
  let ?f = "value_at v ''fields''"
  from assms have k: "has_key v ''key''" and f: "has_key v ''fields''" and fd: "isinstance_dict ?f"
    by (auto simp: issue_body_ok_def dest: has_key_dict)
  from assms have p: "has_key ?f ''priority'' \<longrightarrow> isinstance_dict (value_at ?f ''priority'')"
    and a: "truthy (value_at ?f ''assignee'') \<longrightarrow> isinstance_dict (value_at ?f ''assignee'')"
    by (auto simp: issue_body_ok_def)
  have pr: "get_of (get_of (py_index v ''fields'') ''priority'' (JObject [])) ''name'' JNull =
      Inr (at_path v [''fields'', ''priority'', ''name''])"
    using f fd p
    by (auto simp: get_of_def py_index_value_at py_get_value_or value_or_def value_at_absent)
  have asg: "bind_res (get_of (py_index v ''fields'') ''assignee'' JNull) (\<lambda>a.
                 if truthy a
                 then get_of (get_of (py_index v ''fields'') ''assignee'' (JObject []))
                             ''displayName'' JNull
                 else Inr JNull) =
      Inr (if truthy (at_path v [''fields'', ''assignee''])
           then at_path v [''fields'', ''assignee'', ''displayName''] else JNull)"
    using f fd a
    by (auto simp: get_of_def py_index_value_at py_get_value_or value_or_null value_or_def
        value_at_absent)
  have d: "get_of (py_index v ''fields'') ''description'' JNull =
      Inr (at_path v [''fields'', ''description''])"
    using f fd by (simp add: get_of_def py_index_value_at py_get_value_or value_or_null)
  show ?thesis
    unfolding issue_result_def issue_fields_def pr asg d
    using assms k
    by (simp add: issue_body_ok_def py_index_value_at py_path_at_path
        del: py_path.simps has_path.simps at_path.simps)
qed

lemma substring_single: "substring [c] s \<longleftrightarrow> c \<in> set s"
proof (induction s)
  case Nil
  then show ?case by simp
next
  case (Cons d s)
  then show ?case by auto
qed

lemma page_entry_page_fields:
  assumes "page_entry_ok p"
  shows "page_entry p = Inr (page_entry_fields p)"
proof -
  let ?s = "at_path p [''_expandable'', ''space'']"
  from assms have d: "isinstance_dict p" by (auto simp: page_entry_ok_def dest: has_key_dict)
  have sp: "get_of (py_get p ''_expandable'' (JObject [])) ''space'' (JString []) =
      Inr (if has_path p [''_expandable'', ''space''] then ?s else JString [])"
    using assms d
    by (auto simp: page_entry_ok_def get_of_def py_get_value_or value_or_def)
  have key: "(if truthy (if has_path p [''_expandable'', ''space''] then ?s else JString [])
       then bind_res (py_in ''/'' (if has_path p [''_expandable'', ''space''] then ?s else JString []))
              (\<lambda>has_slash. if has_slash
                 then py_split_last (if has_path p [''_expandable'', ''space''] then ?s else JString [])
                 else Inr JNull)
       else Inr JNull) = Inr (space_key_of ?s)"
  proof (cases "has_path p [''_expandable'', ''space'']")
    case True
    show ?thesis
    proof (cases "truthy ?s")
      case t: True
      with assms have "isinstance_str ?s" by (simp add: page_entry_ok_def)
      then obtain s where "?s = JString s" by (cases ?s) simp_all
      with True t show ?thesis by (simp add: substring_single)
    next
      case False
      with True show ?thesis by (cases ?s) (auto split: pyfloat.splits)
    qed
  next
    case False
    then have "?s = JNull"
      by (auto simp: value_at_absent)
    with False show ?thesis by simp
  qed
  show ?thesis
    unfolding page_entry_def page_entry_fields_def sp
    using key assms
    by (simp add: page_entry_ok_def py_index_value_at
        del: py_path.simps has_path.simps at_path.simps)
qed

lemma pages_result_fields:
  assumes "pages_body_ok v"
  shows "pages_result v = Inr (pages_fields v)"
proof -
  have items: "list_all (\<lambda>p. page_entry p = Inr (page_entry_fields p))
      (items_of (value_at v ''results''))"
    using assms by (auto simp: pages_body_ok_def page_entry_page_fields elim: list_all_weaken)
  have d: "isinstance_dict v" using assms by (simp add: pages_body_ok_def)
  have "bind_res (py_get v ''results'' (JArray [])) py_iter = Inr (items_of (value_at v ''results''))"
    using assms by (intro results_items) (simp_all add: pages_body_ok_def)
  then obtain res where "py_get v ''results'' (JArray []) = Inr res"
    and "py_iter res = Inr (items_of (value_at v ''results''))"
    by (cases "py_get v ''results'' (JArray [])") simp_all
  then show ?thesis
    using items d by (simp add: pages_result_def pages_fields_def mapM_res_map py_get_value_or)
qed

lemma page_result_fields:
  assumes "page_body_ok v"
  shows "page_result v = Inr (page_fields v)"
proof -
  from assms have d: "isinstance_dict v" by (auto simp: page_body_ok_def dest: has_key_dict)
  have sp: "get_of (py_get v ''space'' (JObject [])) ''key'' JNull = Inr (at_path v [''space'', ''key''])"
    using assms d
    by (auto simp: page_body_ok_def get_of_def py_get_value_or value_or_def value_at_absent)
  have ve: "get_of (py_get v ''version'' (JObject [])) ''number'' JNull =
      Inr (at_path v [''version'', ''number''])"
    using assms d
    by (auto simp: page_body_ok_def get_of_def py_get_value_or value_or_def value_at_absent)
  have bo: "get_of (get_of (py_get v ''body'' (JObject [])) ''storage'' (JObject [])) ''value''
        (JString []) = Inr (value_or (at_path v [''body'', ''storage'']) ''value'' (JString []))"
    using assms d
    by (auto simp: page_body_ok_def get_of_def py_get_value_or value_or_def value_at_absent)
  show ?thesis
    unfolding page_result_def page_fields_def sp ve bo
    using assms by (simp add: page_body_ok_def py_index_value_at)
qed

text \<open>
  Each connector, given parameters with which it reaches its upstream request, makes
  that one request and treats the response by its status.
\<close>

lemma call_contractI:
  assumes "\<And>response. resp_status_code response \<notin> set codes \<Longrightarrow>
             f response = Inr (upstream_error response)"
    and "\<And>response v. resp_status_code response \<in> set codes \<Longrightarrow>
             resp_json response = Inr v \<Longrightarrow> shape v \<Longrightarrow> f response = Inr (result v)"
  shows "call_contract w codes shape result (bind_res (requests_request w rq) f, [rq])"
  unfolding call_contract_def
proof (intro exI [of _ rq] conjI allI impI)
  show "snd (bind_res (requests_request w rq) f, [rq]) = [rq]" by simp
next
  fix response
  assume r: "requests_request w rq = Inr response"
    and s: "resp_status_code response \<notin> set codes"
  from assms(1) [OF s] r
  show "fst (bind_res (requests_request w rq) f, [rq]) =
      Inr (JObject [(''error'', JString (resp_text response)),
                    (''status_code'', JInt (resp_status_code response))])"
    by (simp add: upstream_error_def)
next
  fix response v
  assume "requests_request w rq = Inr response" "resp_status_code response \<in> set codes"
    "resp_json response = Inr v" "shape v"
  with assms(2) show "fst (bind_res (requests_request w rq) f, [rq]) = Inr (result v)"
    by simp
qed

lemma get_projects_contract:
  "call_contract w [200] projects_body_ok projects_fields (tool_jira_get_projects w params)"
  unfolding tool_jira_get_projects_def jira_request_def Let_def prod.case
  by (rule call_contractI) (simp_all add: projects_result_fields)

lemma get_spaces_contract:
  "call_contract w [200] spaces_body_ok spaces_fields (tool_confluence_get_spaces w params)"
  unfolding tool_confluence_get_spaces_def confluence_request_def Let_def prod.case
  by (rule call_contractI) (simp_all add: spaces_result_fields)

lemma search_issues_contract:
  assumes "isinstance_dict params"
    and "accepts (py_quote w (value_or params ''jql'' (JString ''ORDER BY created DESC'')))"
  shows "call_contract w [200] search_body_ok (search_fields w) (tool_jira_search_issues w params)"
proof -
  from assms(2) obtain q where
    "py_quote w (value_or params ''jql'' (JString ''ORDER BY created DESC'')) = Inr q"
    by (auto simp: accepts_def split: sum.splits)
  then show ?thesis
    unfolding tool_jira_search_issues_def jira_request_def Let_def
    using assms(1)
    by (simp add: py_get_value_or) (rule call_contractI, simp_all add: search_result_fields)
qed

lemma truthy_value_at: "truthy (value_at params k) \<Longrightarrow> isinstance_dict params \<and> has_key params k"
  by (cases "has_key params k") (auto dest: has_key_dict simp: value_at_absent)

lemma get_issue_contract:
  assumes "truthy (value_at params ''issue_key'')"
  shows "call_contract w [200] issue_body_ok issue_fields (tool_jira_get_issue w params)"
  unfolding tool_jira_get_issue_def jira_request_def Let_def
  using assms truthy_value_at [OF assms]
  by (simp add: py_get_value_or value_or_null) (rule call_contractI, simp_all add: issue_result_fields)

lemma truthy_create_issue_data: "truthy (create_issue_data a b c d)"
  by (simp add: create_issue_data_def)

lemma create_issue_contract:
  assumes "truthy (value_at params ''project_key'')" and "truthy (value_at params ''summary'')"
  shows "call_contract w [200, 201] created_body_ok created_fields
     (tool_jira_create_issue w params)"
  unfolding tool_jira_create_issue_def jira_request_def Let_def
  using assms truthy_value_at [OF assms(1)] truthy_value_at [OF assms(2)]
  by (simp add: py_get_value_or value_or_null truthy_create_issue_data)
    (rule call_contractI, auto simp: created_result_fields)

lemma confluence_search_contract:
  assumes "truthy (value_at params ''query'')"
    and "accepts (quote w (''type=page AND title~\"''
                      @ py_str w (value_at params ''query'') @ ''\"''))"
  shows "call_contract w [200] pages_body_ok pages_fields (tool_confluence_search w params)"
proof -
  from assms(2) obtain q where
    "quote w (''type=page AND title~\"'' @ py_str w (value_at params ''query'') @ ''\"'') = Inr q"
    by (auto simp: accepts_def split: sum.splits)
  then show ?thesis
    unfolding tool_confluence_search_def confluence_request_def Let_def
    using assms(1) truthy_value_at [OF assms(1)]
    by (simp add: py_get_value_or value_or_null) (rule call_contractI, simp_all add: pages_result_fields)
qed

lemma get_page_contract:
  assumes "truthy (value_at params ''page_id'')"
  shows "call_contract w [200] page_body_ok page_fields (tool_confluence_get_page w params)"
  unfolding tool_confluence_get_page_def confluence_request_def Let_def
  using assms truthy_value_at [OF assms]
  by (simp add: py_get_value_or value_or_null) (rule call_contractI, simp_all add: page_result_fields)

lemma domain_result_keys:
  "name \<in> set handler_keys \<Longrightarrow> object_keys (domain_result w name v) = Some (domain_fields name)"
  by (auto simp: handler_keys_def TOOL_HANDLERS_def domain_result_def domain_fields_def
      projects_fields_def search_fields_def issue_fields_def created_fields_def
      spaces_fields_def pages_fields_def page_fields_def)

text \<open>
  With any other parameters a connector of the table makes no upstream request at all,
  so these are all the cases in which there is an upstream response.
\<close>

lemma not_truthy_value_at:
  "\<not> truthy (value_at params k) \<Longrightarrow>
   py_get params k JNull = Inl AttributeError \<or>
   (\<exists>v. py_get params k JNull = Inr v \<and> \<not> truthy v)"
  by (cases params) (auto split: option.splits)

lemma no_request_otherwise:
  assumes "map_of TOOL_HANDLERS name = Some h" and "\<not> sends_request w name params"
  shows "snd (h w params) = []"
proof -
  from assms(1) consider
      "name = ''jira_get_projects''" "h = tool_jira_get_projects"
    | "name = ''jira_search_issues''" "h = tool_jira_search_issues"
    | "name = ''jira_get_issue''" "h = tool_jira_get_issue"
    | "name = ''jira_create_issue''" "h = tool_jira_create_issue"
    | "name = ''confluence_get_spaces''" "h = tool_confluence_get_spaces"
    | "name = ''confluence_search''" "h = tool_confluence_search"
    | "name = ''confluence_get_page''" "h = tool_confluence_get_page"
    by (auto simp: TOOL_HANDLERS_def split: if_splits)
  then show ?thesis
  proof cases
    case 1
    with assms(2) show ?thesis by (simp add: sends_request_def)
  next
    case 2
    show ?thesis
    proof (cases "isinstance_dict params")
      case True
      with 2 assms(2) show ?thesis
        by (auto simp: sends_request_def tool_jira_search_issues_def py_get_value_or accepts_def
            split: sum.splits)
    next
      case False
      then have "py_get params ''jql'' (JString ''ORDER BY created DESC'') = Inl AttributeError"
        by (cases params) simp_all
      with 2 show ?thesis by (simp add: tool_jira_search_issues_def)
    qed
  next
    case 3
    with assms(2) not_truthy_value_at [of params "''issue_key''"] show ?thesis
      by (auto simp: sends_request_def tool_jira_get_issue_def)
  next
    case 4
    from 4 assms(2) have "\<not> truthy (value_at params ''project_key'') \<or>
        \<not> truthy (value_at params ''summary'')"
      by (simp add: sends_request_def)
    then show ?thesis
    proof (cases "isinstance_dict params")
      case True
      with 4 \<open>\<not> truthy (value_at params ''project_key'') \<or> \<not> truthy (value_at params ''summary'')\<close>
      show ?thesis
        by (auto simp: tool_jira_create_issue_def py_get_value_or value_or_null)
    next
      case False
      then have "py_get params ''project_key'' JNull = Inl AttributeError"
        by (cases params) simp_all
      with 4 show ?thesis by (simp add: tool_jira_create_issue_def)
    qed
  next
    case 5
    with assms(2) show ?thesis by (simp add: sends_request_def)
  next
    case 6
    show ?thesis
    proof (cases "isinstance_dict params")
      case True
      with 6 assms(2) show ?thesis
        by (auto simp: sends_request_def tool_confluence_search_def py_get_value_or value_or_null
            accepts_def split: sum.splits)
    next
      case False
      then have "py_get params ''query'' JNull = Inl AttributeError"
        by (cases params) simp_all
      with 6 show ?thesis by (simp add: tool_confluence_search_def)
    qed
  next
    case 7
    with assms(2) not_truthy_value_at [of params "''page_id''"] show ?thesis
      by (auto simp: sends_request_def tool_confluence_get_page_def)
  qed
qed

text \<open>
  C3, as the code has it: every connector of the dispatch table, given the upstream
  response to the request it makes, returns
  \<^verbatim>\<open>{"error": <response text>, "status_code": <code>}\<close> when the status is not
  200 (for \<^verbatim>\<open>jira_create_issue\<close>: neither 200 nor 201), the other 2xx codes
  included, and there it does not raise; when the status is 200 (201 too for
  \<^verbatim>\<open>jira_create_issue\<close>) and the body is JSON of the shape the connector reads, it
  returns the mapping of its domain fields.
\<close>

theorem connector_upstream_contract:
  assumes "map_of TOOL_HANDLERS name = Some h" and "sends_request w name params"
  shows "\<exists>rq. snd (h w params) = [rq] \<and>
     (\<forall>response. requests_request w rq = Inr response \<longrightarrow>
        (resp_status_code response \<notin> set (success_codes name) \<longrightarrow>
           fst (h w params) =
             Inr (JObject [(''error'', JString (resp_text response)),
                           (''status_code'', JInt (resp_status_code response))])) \<and>
        (resp_status_code response \<in> set (success_codes name) \<longrightarrow>
           (\<forall>v. resp_json response = Inr v \<longrightarrow> expected_shape name v \<longrightarrow>
              fst (h w params) = Inr (domain_result w name v) \<and>
              object_keys (domain_result w name v) = Some (domain_fields name))))"
proof -
  have keys: "object_keys (domain_result w name v) = Some (domain_fields name)" for v
    using assms(1) by (intro domain_result_keys) (auto simp: handler_keys_def dest: map_of_SomeD
        intro: rev_image_eqI)
  have "call_contract w (success_codes name) (expected_shape name) (domain_result w name)
      (h w params)"
  proof -
    from assms(1) consider
        "name = ''jira_get_projects''" "h = tool_jira_get_projects"
      | "name = ''jira_search_issues''" "h = tool_jira_search_issues"
      | "name = ''jira_get_issue''" "h = tool_jira_get_issue"
      | "name = ''jira_create_issue''" "h = tool_jira_create_issue"
      | "name = ''confluence_get_spaces''" "h = tool_confluence_get_spaces"
      | "name = ''confluence_search''" "h = tool_confluence_search"
      | "name = ''confluence_get_page''" "h = tool_confluence_get_page"
      by (auto simp: TOOL_HANDLERS_def split: if_splits)
    then show ?thesis
    proof cases
      case 1
      have "expected_shape name = projects_body_ok" "domain_result w name = projects_fields"
        using 1 by (auto simp: expected_shape_def domain_result_def)
      with 1 get_projects_contract [of w params] show ?thesis
        by (simp add: success_codes_def)
    next
      case 2
      have "expected_shape name = search_body_ok" "domain_result w name = search_fields w"
        using 2 by (auto simp: expected_shape_def domain_result_def)
      with 2 assms(2) search_issues_contract [of params w] show ?thesis
        by (simp add: success_codes_def sends_request_def)
    next
      case 3
      have "expected_shape name = issue_body_ok" "domain_result w name = issue_fields"
        using 3 by (auto simp: expected_shape_def domain_result_def)
      with 3 assms(2) get_issue_contract [of params w] show ?thesis
        by (simp add: success_codes_def sends_request_def)
    next
      case 4
      have "expected_shape name = created_body_ok" "domain_result w name = created_fields"
        using 4 by (auto simp: expected_shape_def domain_result_def)
      with 4 assms(2) create_issue_contract [of params w] show ?thesis
        by (simp add: success_codes_def sends_request_def)
    next
      case 5
      have "expected_shape name = spaces_body_ok" "domain_result w name = spaces_fields"
        using 5 by (auto simp: expected_shape_def domain_result_def)
      with 5 get_spaces_contract [of w params] show ?thesis
        by (simp add: success_codes_def)
    next
      case 6
      have "expected_shape name = pages_body_ok" "domain_result w name = pages_fields"
        using 6 by (auto simp: expected_shape_def domain_result_def)
      with 6 assms(2) confluence_search_contract [of params w] show ?thesis
        by (simp add: success_codes_def sends_request_def)
    next
      case 7
      have "expected_shape name = page_body_ok" "domain_result w name = page_fields"
        using 7 by (auto simp: expected_shape_def domain_result_def)
      with 7 assms(2) get_page_contract [of params w] show ?thesis
        by (simp add: success_codes_def sends_request_def)
    qed
  qed
  with keys show ?thesis unfolding call_contract_def by blast
qed

theorem connector_upstream_contract_witness:
  "map_of TOOL_HANDLERS ''jira_get_issue'' = Some tool_jira_get_issue \<and>
   sends_request (sample_world one_issue) ''jira_get_issue''
     (JObject [(''issue_key'', JString ''HR-2'')]) \<and>
   expected_shape ''jira_get_issue'' issue_with_priority \<and>
   upstream_statuses (sample_world one_issue)
     (tool_jira_get_issue (sample_world one_issue) (JObject [(''issue_key'', JString ''HR-2'')])) =
     [Some 200] \<and>
   fst (tool_jira_get_issue (sample_world one_issue) (JObject [(''issue_key'', JString ''HR-2'')])) =
     Inr (JObject [(''key'', JString ''HR-2''), (''summary'', JString ''Payroll''),
                   (''description'', JNull), (''status'', JString ''Open''),
                   (''type'', JString ''Bug''), (''priority'', JString ''High''),
                   (''assignee'', JString ''Ada''), (''created'', JString ''2026-01-01''),
                   (''updated'', JString ''2026-01-02'')]) \<and>
   sends_request (sample_world not_found) ''jira_get_issue''
     (JObject [(''issue_key'', JString ''HR-1'')]) \<and>
   upstream_statuses (sample_world not_found)
     (tool_jira_get_issue (sample_world not_found) (JObject [(''issue_key'', JString ''HR-1'')])) =
     [Some 404] \<and>
   fst (tool_jira_get_issue (sample_world not_found) (JObject [(''issue_key'', JString ''HR-1'')])) =
     Inr (JObject [(''error'', JString ''Issue does not exist''), (''status_code'', JInt 404)])"
proof -
  let ?W = "sample_world one_issue" and ?P = "JObject [(''issue_key'', JString ''HR-2'')]"
  let ?V = "sample_world not_found" and ?Q = "JObject [(''issue_key'', JString ''HR-1'')]"
  have h: "map_of TOOL_HANDLERS ''jira_get_issue'' = Some tool_jira_get_issue"
    by (simp add: TOOL_HANDLERS_def)
  have s1: "sends_request ?W ''jira_get_issue'' ?P" by (simp add: sends_request_def)
  have s2: "sends_request ?V ''jira_get_issue'' ?Q" by (simp add: sends_request_def)
  have sh: "expected_shape ''jira_get_issue'' issue_with_priority"
    by (simp add: expected_shape_def issue_body_ok_def issue_with_priority_def)
  have u1: "upstream_statuses ?W (tool_jira_get_issue ?W ?P) = [Some 200]"
    by (simp add: upstream_statuses_def tool_jira_get_issue_def jira_request_def
        sample_world_def one_issue_def)
  have u2: "upstream_statuses ?V (tool_jira_get_issue ?V ?Q) = [Some 404]"
    by (simp add: upstream_statuses_def tool_jira_get_issue_def jira_request_def
        sample_world_def not_found_def)
  from connector_upstream_contract [OF h s1] obtain rq where
    c1: "snd (tool_jira_get_issue ?W ?P) = [rq]" and
    r1: "\<And>response v. requests_request ?W rq = Inr response \<Longrightarrow>
           resp_status_code response \<in> set (success_codes ''jira_get_issue'') \<Longrightarrow>
           resp_json response = Inr v \<Longrightarrow> expected_shape ''jira_get_issue'' v \<Longrightarrow>
           fst (tool_jira_get_issue ?W ?P) = Inr (domain_result ?W ''jira_get_issue'' v)"
    by blast
  have "requests_request ?W rq =
      Inr \<lparr>resp_status_code = 200, resp_text = ''{...}'', resp_json = Inr issue_with_priority\<rparr>"
    by (simp add: sample_world_def one_issue_def)
  from r1 [OF this _ _ sh]
  have "fst (tool_jira_get_issue ?W ?P) = Inr (domain_result ?W ''jira_get_issue'' issue_with_priority)"
    by (simp add: success_codes_def)
  then have e1: "fst (tool_jira_get_issue ?W ?P) =
     Inr (JObject [(''key'', JString ''HR-2''), (''summary'', JString ''Payroll''),
                   (''description'', JNull), (''status'', JString ''Open''),
                   (''type'', JString ''Bug''), (''priority'', JString ''High''),
                   (''assignee'', JString ''Ada''), (''created'', JString ''2026-01-01''),
                   (''updated'', JString ''2026-01-02'')])"
    by (simp add: domain_result_def issue_fields_def issue_with_priority_def)
  from connector_upstream_contract [OF h s2] obtain rq' where
    c2: "snd (tool_jira_get_issue ?V ?Q) = [rq']" and
    r2: "\<And>response. requests_request ?V rq' = Inr response \<Longrightarrow>
           resp_status_code response \<notin> set (success_codes ''jira_get_issue'') \<Longrightarrow>
           fst (tool_jira_get_issue ?V ?Q) =
             Inr (JObject [(''error'', JString (resp_text response)),
                           (''status_code'', JInt (resp_status_code response))])"
    by blast
  have "requests_request ?V rq' =
      Inr \<lparr>resp_status_code = 404, resp_text = ''Issue does not exist'',
           resp_json = Inl RequestsJSONDecodeError\<rparr>"
    by (simp add: sample_world_def not_found_def)
  from r2 [OF this]
  have e2: "fst (tool_jira_get_issue ?V ?Q) =
     Inr (JObject [(''error'', JString ''Issue does not exist''), (''status_code'', JInt 404)])"
    by (simp add: success_codes_def)
  from h s1 s2 sh u1 u2 e1 e2 show ?thesis by blast
qed

text \<open>
  The claim as the specification words it fails twice: the upstream status 204 is a 2xx
  and the connector returns the error mapping, not domain fields; and on status 200
  with a body that is not JSON the connector raises.
\<close>

theorem connector_status_counterexample:
  "upstream_statuses (sample_world no_content)
     (tool_jira_get_projects (sample_world no_content) (JObject [])) = [Some 204] \<and>
   fst (tool_jira_get_projects (sample_world no_content) (JObject [])) =
     Inr (JObject [(''error'', JString []), (''status_code'', JInt 204)]) \<and>
   upstream_statuses (sample_world ok_not_json)
     (tool_jira_get_projects (sample_world ok_not_json) (JObject [])) = [Some 200] \<and>
   fst (tool_jira_get_projects (sample_world ok_not_json) (JObject [])) =
     Inl RequestsJSONDecodeError"
  by (simp add: upstream_statuses_def tool_jira_get_projects_def jira_request_def
      sample_world_def no_content_def ok_not_json_def upstream_error_def)

text \<open>
  Outside the expected shape nothing is promised. One such body is an issue whose
  \<^verbatim>\<open>priority\<close> is \<^verbatim>\<open>null\<close>: the read of \<^verbatim>\<open>priority\<close> has no guard like the
  one of \<^verbatim>\<open>assignee\<close>, and \<^verbatim>\<open>None.get("name")\<close> raises.
\<close>

lemma issue_priority_null_raises:
  "\<not> issue_body_ok issue_without_priority \<and>
   issue_result issue_without_priority = Inl AttributeError"
  by (simp add: issue_body_ok_def issue_result_def issue_without_priority_def get_of_def)

subsection \<open>The client\<close>

text \<open>
  C7: when the POST of \<^verbatim>\<open>MCPClient.invoke\<close> fails in transport, that is
  \<^verbatim>\<open>requests.post\<close> raises a \<^verbatim>\<open>RequestException\<close> (connection refused, timeout)
  or \<^verbatim>\<open>raise_for_status\<close> raises for a 4xx or 5xx status, \<^verbatim>\<open>invoke\<close> does not
  raise: it returns \<^verbatim>\<open>{"error": "<message>", "result": null}\<close>, an envelope with
  null result and the exception's message as error, like the server's own.
\<close>

theorem invoke_transport_failure:
  assumes "transport_failure w c name params = Some e"
  shows "invoke w c name params =
           Inr (JObject [(''error'', JString (exn_str w e)), (''result'', JNull)]) \<and>
         envelope_of (JObject [(''error'', JString (exn_str w e)), (''result'', JNull)]) =
           Some (JNull, JString (exn_str w e))"
  using assms
  by (auto simp: transport_failure_def invoke_def bind_res_def raise_for_status_def
      split: sum.splits if_splits)

theorem invoke_transport_failure_witness:
  "transport_failure (client_world refusing) (MCPClient_init ''http://localhost:8000/'')
     ''jira_get_projects'' JNull = Some ConnectionError \<and>
   invoke (client_world refusing) (MCPClient_init ''http://localhost:8000/'')
     ''jira_get_projects'' JNull =
     Inr (JObject [(''error'', JString ''Connection refused''), (''result'', JNull)]) \<and>
   transport_failure (client_world answering_404) (MCPClient_init ''http://localhost:8000/'')
     ''nope'' (JObject []) = Some HTTPError \<and>
   invoke (client_world answering_404) (MCPClient_init ''http://localhost:8000/'')
     ''nope'' (JObject []) =
     Inr (JObject [(''error'', JString ''404 Client Error: Not Found''), (''result'', JNull)])"
proof -
  have h1: "transport_failure (client_world refusing) (MCPClient_init ''http://localhost:8000/'')
     ''jira_get_projects'' JNull = Some ConnectionError"
    by (simp add: transport_failure_def client_world_def sample_world_def refusing_def)
  have h2: "transport_failure (client_world answering_404)
     (MCPClient_init ''http://localhost:8000/'') ''nope'' (JObject []) = Some HTTPError"
    by (simp add: transport_failure_def client_world_def sample_world_def answering_404_def
        raise_for_status_def)
  have m1: "exn_str (client_world refusing) ConnectionError = ''Connection refused''"
    by (simp add: client_world_def sample_world_def sample_message_def)
  have m2: "exn_str (client_world answering_404) HTTPError = ''404 Client Error: Not Found''"
    by (simp add: client_world_def sample_world_def sample_message_def)
  from invoke_transport_failure [OF h1] invoke_transport_failure [OF h2] h1 h2 m1 m2
  show ?thesis by simp
qed

text \<open>
  Beyond transport failures: the decoded body of a successful response is returned as
  it is, and an exception that is not a \<^verbatim>\<open>RequestException\<close> is not caught.
\<close>

lemma invoke_passes_response:
  assumes "requests_post w (server_url c @ ''/mcp/v1/invoke'') (invoke_payload name params) 30 =
             Inr response"
    and "raise_for_status response = Inr ()"
    and "resp_json response = Inr v"
  shows "invoke w c name params = Inr v"
  using assms by (simp add: invoke_def)

lemma invoke_other_exception:
  assumes "requests_post w (server_url c @ ''/mcp/v1/invoke'') (invoke_payload name params) 30 =
             Inl e"
    and "\<not> is_RequestException e"
  shows "invoke w c name params = Inl e"
  using assms by (simp add: invoke_def)


text \<open>
  If the library raises nothing but \<^verbatim>\<open>RequestException\<close>s, as its documentation
  says of the exceptions it raises itself, \<^verbatim>\<open>invoke\<close> always returns.
\<close>

lemma invoke_never_raises:
  assumes "\<And>e. requests_post w (server_url c @ ''/mcp/v1/invoke'')
                  (invoke_payload name params) 30 = Inl e \<Longrightarrow> is_RequestException e"
    and "\<And>response e. requests_post w (server_url c @ ''/mcp/v1/invoke'')
                  (invoke_payload name params) 30 = Inr response \<Longrightarrow>
                resp_json response = Inl e \<Longrightarrow> is_RequestException e"
  shows "\<exists>v. invoke w c name params = Inr v"
proof (cases "requests_post w (server_url c @ ''/mcp/v1/invoke'') (invoke_payload name params) 30")
  case (Inl e)
  with assms(1) show ?thesis by (simp add: invoke_def)
next
  case (Inr response)
  show ?thesis
  proof (cases "raise_for_status response")
    case (Inl e)
    then have "e = HTTPError" by (simp add: raise_for_status_def split: if_splits)
    with Inl Inr show ?thesis by (simp add: invoke_def)
  next
    case ok: (Inr u)
    show ?thesis
    proof (cases "resp_json response")
      case (Inl e)
      with assms(2) [OF Inr] have "is_RequestException e" by simp
      with Inl ok Inr show ?thesis by (simp add: invoke_def)
    next
      case (Inr v)
      with ok \<open>requests_post w (server_url c @ ''/mcp/v1/invoke'')
          (invoke_payload name params) 30 = Inr response\<close>
      show ?thesis by (simp add: invoke_def)
    qed
  qed
qed

end

